theory Spec2Isabelle
  imports Main "HOL-Library.AList"
begin

section \<open>k8s-apply: a minimal Kubernetes API client\<close>

text \<open>
  The development embeds \<^verbatim>\<open>src/k8s-apply.js\<close>: the helper \<^verbatim>\<open>defaults\<close> and the
  methods of class \<^verbatim>\<open>K8sApi\<close> (\<^verbatim>\<open>request\<close>, \<^verbatim>\<open>get\<close>, \<^verbatim>\<open>post\<close>, \<^verbatim>\<open>put\<close>, \<^verbatim>\<open>del\<close>,
  \<^verbatim>\<open>getPluralPath\<close>, \<^verbatim>\<open>applyObject\<close>, \<^verbatim>\<open>delObject\<close>).

  JavaScript objects are association lists in insertion order. A promise is modelled by the
  way it ends. Mutation of an object the caller handed in is modelled by returning the
  object as it is after the call. The network is a function from the requests sent so far
  and the request being sent to the response of the server. The diagnostic line that
  \<^verbatim>\<open>request\<close> prints with \<^verbatim>\<open>console.log\<close> is not modelled.
\<close>

subsection \<open>Values\<close>

text \<open>A parsed JSON document, as \<^verbatim>\<open>JSON.parse\<close> returns it.\<close>

datatype json =
    JNull
  | JBool bool
  | JNum int
  | JStr string
  | JArr "json list"
  | JObj "(string \<times> json) list"

text \<open>
  The values an options object holds: strings (\<^verbatim>\<open>hostname\<close>, \<^verbatim>\<open>path\<close>, \<^verbatim>\<open>method\<close>,
  \<^verbatim>\<open>postData\<close>, header values), numbers (\<^verbatim>\<open>port\<close>, \<^verbatim>\<open>Content-Length\<close>) and nested
  objects (\<^verbatim>\<open>headers\<close>).
\<close>

datatype jsval =
    Str string
  | Num int
  | Obj "(string \<times> jsval) list"

type_synonym options = "(string \<times> jsval) list"

text \<open>
  A resource object. The fields the client reads are typed as the data model has them;
  \<^verbatim>\<open>metadata.name\<close> may be absent, \<^verbatim>\<open>metadata.resourceVersion\<close> is absent
  (\<^verbatim>\<open>undefined\<close>) or whatever JSON value the server sent. Every other field is carried
  along in \<open>meta_other\<close> and \<open>other\<close>.
\<close>

record metadata =
  namespace :: string
  name :: "string option"
  resourceVersion :: "json option"
  meta_other :: "(string \<times> json) list"

record resource =
  apiVersion :: string
  kind :: string
  metadata :: metadata
  other :: "(string \<times> json) list"

text \<open>The result \<^verbatim>\<open>{ statusCode, data }\<close> a request is fulfilled with.\<close>

record result =
  statusCode :: int
  data :: json

text \<open>
  The errors of the client. \<open>CannotGetObject statusCode getObject\<close> is
  \<^verbatim>\<open>new Error("k8s-apply cannot get object: " + statusCode + "\n" + JSON.stringify(getObject, null, 4))\<close>;
  \<open>RequestError\<close> is what the \<^verbatim>\<open>"error"\<close> event of the request carries; \<open>SyntaxError\<close> is
  thrown by \<^verbatim>\<open>JSON.parse\<close> (the argument is the text that did not parse); \<open>TypeError\<close>
  names the expression whose evaluation threw.
\<close>

datatype error =
    RequestError string
  | SyntaxError string
  | TypeError string
  | CannotGetObject int json

text \<open>
  How the promise of an operation ends. \<open>Fulfilled\<close> and \<open>Rejected\<close> settle it.
  \<open>Uncaught e\<close>: \<open>e\<close> was thrown inside an event listener, after the promise executor
  had returned; the exception reaches the event loop as an uncaught exception and the
  promise is never settled, so no continuation attached to it runs.
\<close>

datatype 'a outcome =
    Fulfilled 'a
  | Rejected error
  | Uncaught error

subsection \<open>The environment\<close>

text \<open>
  What the module takes from its surroundings: the service-account token read at load
  time, the environment variable \<^verbatim>\<open>KUBERNETES_SERVICE_HOST\<close> (set inside a cluster), and
  the built-in functions \<^verbatim>\<open>JSON.parse\<close> (\<open>None\<close> when it throws), \<^verbatim>\<open>JSON.stringify\<close>
  on a resource object, \<^verbatim>\<open>Buffer.byteLength\<close> and \<^verbatim>\<open>String.prototype.toLowerCase\<close>.
\<close>

record runtime =
  token :: string
  KUBERNETES_SERVICE_HOST :: string
  JSON_parse :: "string \<Rightarrow> json option"
  JSON_stringify :: "resource \<Rightarrow> string"
  byteLength :: "string \<Rightarrow> nat"
  toLowerCase :: "string \<Rightarrow> string"

text \<open>
  What comes back for one call of \<^verbatim>\<open>https.request\<close>: the request emits \<^verbatim>\<open>"error"\<close>, or
  the response ends with a status code and the text of its body.
\<close>

datatype response =
    Failed string
  | Reply int string

text \<open>
  The server and the connection to it: the response to a request (the options object
  handed to \<^verbatim>\<open>https.request\<close>), given the requests sent before it.
\<close>

type_synonym network = "options list \<Rightarrow> options \<Rightarrow> response"

subsection \<open>The helper \<^verbatim>\<open>defaults\<close>\<close>

text \<open>
  \<^verbatim>\<open>Object.keys( defaults ).forEach( key => { if( !(key in target) ) target[ key ] = defaults[ key ]; })\<close>.
  The assignment \<^verbatim>\<open>target[key] = v\<close> is \<^const>\<open>AList.update\<close>.
\<close>

fun defaults :: "('k \<times> 'v) list \<Rightarrow> ('k \<times> 'v) list \<Rightarrow> ('k \<times> 'v) list" where
  "defaults target [] = target"
| "defaults target ((key, v) # ds) =
     defaults (if key \<in> fst ` set target then target else AList.update key v target) ds"

text \<open>\<^verbatim>\<open>options || {}\<close>: an options argument that was not given is a fresh empty object.\<close>

definition or_empty :: "options option \<Rightarrow> options" where
  "or_empty options = (case options of None \<Rightarrow> [] | Some opts \<Rightarrow> opts)"

subsection \<open>Transport\<close>

text \<open>
  The two listeners of the promise in \<^verbatim>\<open>request\<close>: \<^verbatim>\<open>req.on( "error", reject )\<close>, and the
  \<^verbatim>\<open>"end"\<close> listener that calls \<^verbatim>\<open>fulfill\<close> on the status code and \<^verbatim>\<open>JSON.parse( data )\<close>.
  An exception of \<^verbatim>\<open>JSON.parse\<close> is thrown in that listener.
\<close>

definition settle :: "runtime \<Rightarrow> response \<Rightarrow> result outcome" where
  "settle rt r =
     (case r of
        Failed e \<Rightarrow> Rejected (RequestError e)
      | Reply sc body \<Rightarrow>
          (case JSON_parse rt body of
             None \<Rightarrow> Uncaught (SyntaxError body)
           | Some d \<Rightarrow> Fulfilled \<lparr>statusCode = sc, data = d\<rparr>))"

text \<open>
  \<^verbatim>\<open>if( options.postData ) req.write( options.postData )\<close>: the chunk written to the
  request, if any. Empty strings and zero are falsy.
\<close>

fun truthy :: "jsval \<Rightarrow> bool" where
  "truthy (Str s) = (s \<noteq> [])"
| "truthy (Num n) = (n \<noteq> 0)"
| "truthy (Obj kvs) = True"

definition written :: "options \<Rightarrow> jsval option" where
  "written options =
     (case map_of options ''postData'' of
        None \<Rightarrow> None
      | Some v \<Rightarrow> if truthy v then Some v else None)"

text \<open>
  \<^verbatim>\<open>request( path, options )\<close>. The result is how the promise ends, the options object
  after the call (the caller's own object when one was given), and the requests sent.
  When \<^verbatim>\<open>options.headers\<close> is not an object, the \<^verbatim>\<open>in\<close> of \<^verbatim>\<open>defaults\<close> throws a
  TypeError and nothing is sent.
\<close>

definition request ::
  "runtime \<Rightarrow> network \<Rightarrow> string \<Rightarrow> options option \<Rightarrow> options list
     \<Rightarrow> result outcome \<times> options \<times> options list" where
  "request rt net path options sent =
     (let options = or_empty options;
          options = defaults options
            [(''hostname'', Str (KUBERNETES_SERVICE_HOST rt)),
             (''port'', Num 443),
             (''path'', Str path),
             (''method'', Str ''GET''),
             (''headers'', Obj [])]
      in case map_of options ''headers'' of
           Some (Obj headers) \<Rightarrow>
             (let headers = defaults headers [(''Authorization'', Str (''Bearer '' @ token rt))];
                  options = AList.update ''headers'' (Obj headers) options
              in (settle rt (net sent options), options, sent @ [options]))
         | _ \<Rightarrow> (Rejected (TypeError ''options.headers''), options, sent))"

text \<open>The wrappers. \<^verbatim>\<open>put\<close> and \<^verbatim>\<open>del\<close> do not use their \<^verbatim>\<open>options\<close> parameter.\<close>

definition get ::
  "runtime \<Rightarrow> network \<Rightarrow> string \<Rightarrow> options option \<Rightarrow> options list
     \<Rightarrow> result outcome \<times> options \<times> options list" where
  "get rt net path options sent =
     request rt net path (Some (defaults (or_empty options) [(''method'', Str ''GET'')])) sent"

definition post ::
  "runtime \<Rightarrow> network \<Rightarrow> string \<Rightarrow> resource \<Rightarrow> options option \<Rightarrow> options list
     \<Rightarrow> result outcome \<times> options \<times> options list" where
  "post rt net path object options sent =
     (let body = JSON_stringify rt object
      in request rt net path
           (Some (defaults (or_empty options)
              [(''method'', Str ''POST''),
               (''headers'', Obj
                  [(''Content-Type'', Str ''application/json''),
                   (''Content-Length'', Num (int (byteLength rt body)))]),
               (''postData'', Str body)]))
           sent)"

definition put ::
  "runtime \<Rightarrow> network \<Rightarrow> string \<Rightarrow> resource \<Rightarrow> options option \<Rightarrow> options list
     \<Rightarrow> result outcome \<times> options list" where
  "put rt net path object options sent =
     (case post rt net path object (Some [(''method'', Str ''PUT'')]) sent of
        (out, _, sent') \<Rightarrow> (out, sent'))"

definition del ::
  "runtime \<Rightarrow> network \<Rightarrow> string \<Rightarrow> options option \<Rightarrow> options list
     \<Rightarrow> result outcome \<times> options list" where
  "del rt net path options sent =
     (case request rt net path (Some [(''method'', Str ''DELETE'')]) sent of
        (out, _, sent') \<Rightarrow> (out, sent'))"

subsection \<open>Resource reconciler\<close>

text \<open>\<^verbatim>\<open>s.indexOf(c)\<close> for a one-character search string: the first index, or \<open>-1\<close>.\<close>

primrec indexOf :: "string \<Rightarrow> char \<Rightarrow> int" where
  "indexOf [] c = - 1"
| "indexOf (x # xs) c =
     (if x = c then 0 else (let i = indexOf xs c in if i < 0 then - 1 else i + 1))"

definition getPluralPath :: "runtime \<Rightarrow> resource \<Rightarrow> string" where
  "getPluralPath rt object =
     ''/api'' @ (if indexOf (apiVersion object) CHR ''/'' > 0 then ''s'' else '''')
       @ ''/'' @ apiVersion object
       @ ''/namespaces/'' @ namespace (metadata object)
       @ ''/'' @ toLowerCase rt (kind object) @ ''s''"

text \<open>\<^verbatim>\<open>`/${object.metadata.name}`\<close>: an absent name is spliced in as \<^verbatim>\<open>undefined\<close>.\<close>

definition name_segment :: "resource \<Rightarrow> string" where
  "name_segment object =
     ''/'' @ (case name (metadata object) of None \<Rightarrow> ''undefined'' | Some n \<Rightarrow> n)"

text \<open>
  Property access \<^verbatim>\<open>v.key\<close> on a parsed value or \<^verbatim>\<open>undefined\<close> (\<open>None\<close>), for the keys
  \<^verbatim>\<open>metadata\<close> and \<^verbatim>\<open>resourceVersion\<close>: on \<^verbatim>\<open>undefined\<close> and \<^verbatim>\<open>null\<close> it throws a
  TypeError, on an object it is the value stored or \<^verbatim>\<open>undefined\<close>, on booleans, numbers,
  strings and arrays it is \<^verbatim>\<open>undefined\<close>.
\<close>

fun property :: "json option \<Rightarrow> string \<Rightarrow> error + json option" where
  "property None key = Inl (TypeError key)"
| "property (Some JNull) key = Inl (TypeError key)"
| "property (Some (JObj kvs)) key = Inr (map_of kvs key)"
| "property (Some v) key = Inr None"

text \<open>\<^verbatim>\<open>getObject.metadata.resourceVersion\<close>.\<close>

definition fetched_resourceVersion :: "json \<Rightarrow> error + json option" where
  "fetched_resourceVersion getObject =
     (case property (Some getObject) ''metadata'' of
        Inl e \<Rightarrow> Inl e
      | Inr m \<Rightarrow> property m ''resourceVersion'')"

text \<open>
  \<^verbatim>\<open>applyObject( object )\<close>. The result is how the promise ends, the caller's object after
  the call, and the requests sent. An exception thrown in a \<^verbatim>\<open>then\<close> callback rejects the
  promise.
\<close>

definition applyObject ::
  "runtime \<Rightarrow> network \<Rightarrow> resource \<Rightarrow> options list
     \<Rightarrow> result outcome \<times> resource \<times> options list" where
  "applyObject rt net object sent =
     (let path = getPluralPath rt object
      in case post rt net path object None sent of
           (Fulfilled res, _, sent1) \<Rightarrow>
             if statusCode res \<noteq> 409 then (Fulfilled res, object, sent1)
             else
               (let path = path @ name_segment object
                in case get rt net path None sent1 of
                     (Fulfilled got, _, sent2) \<Rightarrow>
                       if statusCode got \<noteq> 200
                       then (Rejected (CannotGetObject (statusCode got) (data got)), object, sent2)
                       else
                         (case fetched_resourceVersion (data got) of
                            Inl e \<Rightarrow> (Rejected e, object, sent2)
                          | Inr rv \<Rightarrow>
                              (let object = object\<lparr>metadata := (metadata object)\<lparr>resourceVersion := rv\<rparr>\<rparr>
                               in case put rt net path object None sent2 of
                                    (out, sent3) \<Rightarrow> (out, object, sent3)))
                   | (Rejected e, _, sent2) \<Rightarrow> (Rejected e, object, sent2)
                   | (Uncaught e, _, sent2) \<Rightarrow> (Uncaught e, object, sent2))
         | (Rejected e, _, sent1) \<Rightarrow> (Rejected e, object, sent1)
         | (Uncaught e, _, sent1) \<Rightarrow> (Uncaught e, object, sent1))"

definition delObject ::
  "runtime \<Rightarrow> network \<Rightarrow> resource \<Rightarrow> options list \<Rightarrow> result outcome \<times> options list" where
  "delObject rt net object sent =
     (let path = getPluralPath rt object @ name_segment object
      in del rt net path None sent)"

subsection \<open>Callers and observations\<close>

text \<open>
  A caller that performs a list of reconciler operations on one resource object, one after
  the other, whatever way each of them ends; the result is the object and the requests
  sent at the end.
\<close>

datatype operation = ApplyObject | DelObject

fun run ::
  "runtime \<Rightarrow> network \<Rightarrow> operation list \<Rightarrow> resource \<Rightarrow> options list
     \<Rightarrow> resource \<times> options list" where
  "run rt net [] object sent = (object, sent)"
| "run rt net (ApplyObject # ops) object sent =
     (case applyObject rt net object sent of
        (out, object', sent') \<Rightarrow> run rt net ops object' sent')"
| "run rt net (DelObject # ops) object sent =
     (case delObject rt net object sent of
        (out, sent') \<Rightarrow> run rt net ops object sent')"

text \<open>Reading a request: its method and path, a header, and how many requests use a method.\<close>

definition sends :: "string \<Rightarrow> string \<Rightarrow> options \<Rightarrow> bool" where
  "sends m p req \<longleftrightarrow>
     map_of req ''method'' = Some (Str m) \<and> map_of req ''path'' = Some (Str p)"

definition header :: "options \<Rightarrow> string \<Rightarrow> jsval option" where
  "header req h = (case map_of req ''headers'' of Some (Obj hs) \<Rightarrow> map_of hs h | _ \<Rightarrow> None)"

definition count_method :: "string \<Rightarrow> options list \<Rightarrow> nat" where
  "count_method m sent = length (filter (\<lambda>req. map_of req ''method'' = Some (Str m)) sent)"

text \<open>
  The options objects the wrappers hand to \<^verbatim>\<open>https.request\<close> when the caller gives no
  options of their own: with a body (\<^verbatim>\<open>post\<close>, \<^verbatim>\<open>put\<close>) and without (\<^verbatim>\<open>get\<close>,
  \<^verbatim>\<open>del\<close>), keys in the order in which the code writes them.
\<close>

definition body_options :: "runtime \<Rightarrow> string \<Rightarrow> string \<Rightarrow> resource \<Rightarrow> options" where
  "body_options rt m path object =
     [(''method'', Str m),
      (''headers'', Obj
         [(''Content-Type'', Str ''application/json''),
          (''Content-Length'', Num (int (byteLength rt (JSON_stringify rt object)))),
          (''Authorization'', Str (''Bearer '' @ token rt))]),
      (''postData'', Str (JSON_stringify rt object)),
      (''hostname'', Str (KUBERNETES_SERVICE_HOST rt)),
      (''port'', Num 443),
      (''path'', Str path)]"

definition plain_options :: "runtime \<Rightarrow> string \<Rightarrow> string \<Rightarrow> options" where
  "plain_options rt m path =
     [(''method'', Str m),
      (''hostname'', Str (KUBERNETES_SERVICE_HOST rt)),
      (''port'', Num 443),
      (''path'', Str path),
      (''headers'', Obj [(''Authorization'', Str (''Bearer '' @ token rt))])]"

text \<open>
  Reading an options object after a call. \<open>or_default present d\<close> is the value of a key
  that the call writes only when it is missing. \<open>with_authorization rt present fresh\<close> is
  the value of \<^verbatim>\<open>headers\<close>: a headers object (the caller's own, or \<open>fresh\<close> when the key
  is missing) gets the Authorization header unless it has one; any other value stays.
  \<open>all_present opts\<close>: \<open>opts\<close> has the five keys that \<^verbatim>\<open>request\<close> fills in, and its
  headers object, if it is one, has an Authorization header.
\<close>

definition or_default :: "jsval option \<Rightarrow> jsval \<Rightarrow> jsval option" where
  "or_default present d = (case present of None \<Rightarrow> Some d | Some v \<Rightarrow> Some v)"

definition with_authorization :: "runtime \<Rightarrow> jsval option \<Rightarrow> options \<Rightarrow> jsval option" where
  "with_authorization rt present fresh =
     (case present of
        None \<Rightarrow> Some (Obj (fresh @ [(''Authorization'', Str (''Bearer '' @ token rt))]))
      | Some (Obj hs) \<Rightarrow>
          Some (Obj (if ''Authorization'' \<in> fst ` set hs then hs
                     else hs @ [(''Authorization'', Str (''Bearer '' @ token rt))]))
      | Some v \<Rightarrow> Some v)"

definition all_present :: "options \<Rightarrow> bool" where
  "all_present opts \<longleftrightarrow>
     {''hostname'', ''port'', ''path'', ''method'', ''headers''} \<subseteq> fst ` set opts
     \<and> (\<forall>hs. map_of opts ''headers'' = Some (Obj hs) \<longrightarrow> ''Authorization'' \<in> fst ` set hs)"

subsection \<open>An example cluster\<close>

text \<open>
  A concrete environment to run the client in: lower-casing of ASCII letters, a parser
  that knows the bodies the example servers send, a serialiser of the fields the client
  reads, and a server that answers the \<open>n\<close>-th request with the \<open>n\<close>-th response of a
  script and drops the connection afterwards.
\<close>

fun ascii_lower :: "char \<Rightarrow> char" where
  "ascii_lower (Char b0 b1 b2 b3 b4 b5 b6 b7) =
     (let n = (of_char (Char b0 b1 b2 b3 b4 b5 b6 b7) :: nat)
      in if 65 \<le> n \<and> n \<le> 90 then Char b0 b1 b2 b3 b4 True b6 b7
         else Char b0 b1 b2 b3 b4 b5 b6 b7)"

definition ascii_toLowerCase :: "string \<Rightarrow> string" where
  "ascii_toLowerCase s = map ascii_lower s"

definition sample_parse :: "string \<Rightarrow> json option" where
  \<open>sample_parse s =
     (if s = ''{}'' then Some (JObj [])
      else if s = ''{"metadata":{"resourceVersion":"42"}}''
        then Some (JObj [(''metadata'', JObj [(''resourceVersion'', JStr ''42'')])])
      else if s = ''{"kind":"Status","code":409}''
        then Some (JObj [(''kind'', JStr ''Status''), (''code'', JNum 409)])
      else if s = ''{"kind":"Status","code":403}''
        then Some (JObj [(''kind'', JStr ''Status''), (''code'', JNum 403)])
      else if s = ''{"kind":"Status","code":404}''
        then Some (JObj [(''kind'', JStr ''Status''), (''code'', JNum 404)])
      else None)\<close>

definition sample_stringify :: "resource \<Rightarrow> string" where
  \<open>sample_stringify r =
     ''{"apiVersion":"'' @ apiVersion r @ ''","kind":"'' @ kind r
       @ ''","metadata":{"namespace":"'' @ namespace (metadata r) @ ''"''
       @ (case name (metadata r) of None \<Rightarrow> [] | Some n \<Rightarrow> '',"name":"'' @ n @ ''"'')
       @ (case resourceVersion (metadata r) of
            Some (JStr v) \<Rightarrow> '',"resourceVersion":"'' @ v @ ''"''
          | _ \<Rightarrow> [])
       @ ''}}''\<close>

definition sample_runtime :: runtime where
  "sample_runtime =
     \<lparr>token = ''t0k3n'',
      KUBERNETES_SERVICE_HOST = ''10.96.0.1'',
      JSON_parse = sample_parse,
      JSON_stringify = sample_stringify,
      byteLength = length,
      toLowerCase = ascii_toLowerCase\<rparr>"

definition scripted :: "response list \<Rightarrow> network" where
  "scripted rs sent req =
     (if length sent < length rs then rs ! length sent else Failed ''ECONNRESET'')"

definition service_a :: resource where
  "service_a =
     \<lparr>apiVersion = ''v1'', kind = ''Service'',
      metadata = \<lparr>namespace = ''ns1'', name = Some ''svc-a'', resourceVersion = None,
        meta_other = []\<rparr>,
      other = []\<rparr>"

section \<open>Properties\<close>

subsection \<open>What \<^verbatim>\<open>defaults\<close> computes\<close>

lemma map_of_defaults:
  "map_of (defaults target ds) k =
     (case map_of target k of Some v \<Rightarrow> Some v | None \<Rightarrow> map_of ds k)"
proof (induction ds arbitrary: target)
  case Nil
  then show ?case by (simp split: option.split)
next
  case (Cons d ds)
  obtain key v where d: "d = (key, v)" by (cases d)
  show ?case
  proof (cases "key \<in> fst ` set target")
    case True
    then have "map_of target key \<noteq> None" by (simp add: map_of_eq_None_iff)
    with True show ?thesis by (auto simp: d Cons.IH split: option.split)
  next
    case False
    then have "map_of target key = None" by (simp add: map_of_eq_None_iff)
    with False show ?thesis by (auto simp: d Cons.IH AList.update_conv' split: option.split)
  qed
qed

lemma keys_defaults: "fst ` set (defaults target ds) = fst ` set target \<union> fst ` set ds"
proof (induction ds arbitrary: target)
  case Nil
  then show ?case by simp
next
  case (Cons d ds)
  obtain key v where d: "d = (key, v)" by (cases d)
  show ?case by (auto simp: d Cons.IH AList.dom_update)
qed

lemma length_defaults: "length target \<le> length (defaults target ds)"
proof (induction ds arbitrary: target)
  case Nil
  then show ?case by simp
next
  case (Cons d ds)
  obtain key v where d: "d = (key, v)" by (cases d)
  have "length target \<le> length (AList.update key v target)"
    by (induction target) auto
  then show ?case using Cons.IH [of "AList.update key v target"] Cons.IH [of target]
    by (auto simp: d)
qed

lemma update_fresh:
  "key \<notin> fst ` set target \<Longrightarrow> AList.update key v target = target @ [(key, v)]"
  by (induction target) auto

lemma defaults_unchanged_iff:
  "defaults target ds = target \<longleftrightarrow> fst ` set ds \<subseteq> fst ` set target"
proof (induction ds arbitrary: target)
  case Nil
  then show ?case by simp
next
  case (Cons d ds)
  obtain key v where d: "d = (key, v)" by (cases d)
  show ?case
  proof (cases "key \<in> fst ` set target")
    case True
    then show ?thesis by (simp add: d Cons.IH)
  next
    case False
    have "length target < length (defaults (target @ [(key, v)]) ds)"
      using length_defaults [of "target @ [(key, v)]" ds] by simp
    then have "defaults (target @ [(key, v)]) ds \<noteq> target" by auto
    with False show ?thesis by (simp add: d update_fresh)
  qed
qed

subsection \<open>The wrappers without caller options\<close>

lemma post_plain:
  "post rt net path object None sent =
     (settle rt (net sent (body_options rt ''POST'' path object)),
      body_options rt ''POST'' path object,
      sent @ [body_options rt ''POST'' path object])"
  by (simp add: post_def request_def or_empty_def Let_def body_options_def)

lemma put_plain:
  "put rt net path object options sent =
     (settle rt (net sent (body_options rt ''PUT'' path object)),
      sent @ [body_options rt ''PUT'' path object])"
  by (simp add: put_def post_def request_def or_empty_def Let_def body_options_def)

lemma get_plain:
  "get rt net path None sent =
     (settle rt (net sent (plain_options rt ''GET'' path)),
      plain_options rt ''GET'' path,
      sent @ [plain_options rt ''GET'' path])"
  by (simp add: get_def request_def or_empty_def Let_def plain_options_def)

lemma del_plain:
  "del rt net path options sent =
     (settle rt (net sent (plain_options rt ''DELETE'' path)),
      sent @ [plain_options rt ''DELETE'' path])"
  by (simp add: del_def request_def or_empty_def Let_def plain_options_def)

lemma sends_body_options: "sends m p (body_options rt m p object)"
  by (simp add: sends_def body_options_def)

lemma sends_plain_options: "sends m p (plain_options rt m p)"
  by (simp add: sends_def plain_options_def)

lemma postData_body_options:
  "map_of (body_options rt m p object) ''postData'' = Some (Str (JSON_stringify rt object))"
  by (simp add: body_options_def)

lemma method_of_options:
  "map_of (body_options rt m p object) ''method'' = Some (Str m)"
  "map_of (plain_options rt m p) ''method'' = Some (Str m)"
  by (simp_all add: body_options_def plain_options_def)

lemma applyObject_unfold:
  "applyObject rt net object sent =
     (let p = getPluralPath rt object;
          c = body_options rt ''POST'' p object
      in case settle rt (net sent c) of
           Fulfilled res \<Rightarrow>
             if statusCode res \<noteq> 409 then (Fulfilled res, object, sent @ [c])
             else
               (let r = plain_options rt ''GET'' (p @ name_segment object)
                in case settle rt (net (sent @ [c]) r) of
                     Fulfilled got \<Rightarrow>
                       if statusCode got \<noteq> 200
                       then (Rejected (CannotGetObject (statusCode got) (data got)), object,
                             sent @ [c, r])
                       else
                         (case fetched_resourceVersion (data got) of
                            Inl e \<Rightarrow> (Rejected e, object, sent @ [c, r])
                          | Inr rv \<Rightarrow>
                              (let object' = object\<lparr>metadata := (metadata object)\<lparr>resourceVersion := rv\<rparr>\<rparr>;
                                   u = body_options rt ''PUT'' (p @ name_segment object) object'
                               in (settle rt (net (sent @ [c, r]) u), object', sent @ [c, r, u])))
                   | Rejected e \<Rightarrow> (Rejected e, object, sent @ [c, r])
                   | Uncaught e \<Rightarrow> (Uncaught e, object, sent @ [c, r]))
         | Rejected e \<Rightarrow> (Rejected e, object, sent @ [c])
         | Uncaught e \<Rightarrow> (Uncaught e, object, sent @ [c]))"
  by (simp add: applyObject_def post_plain get_plain put_plain Let_def
      split: outcome.split sum.split)

subsection \<open>The example cluster\<close>

lemma sample_JSON_parse: "JSON_parse sample_runtime = sample_parse"
  by (simp add: sample_runtime_def)

lemma sample_plural_path:
  "getPluralPath sample_runtime service_a = ''/api/v1/namespaces/ns1/services''"
  by (simp add: getPluralPath_def sample_runtime_def service_a_def ascii_toLowerCase_def)

lemma sample_name_segment: "name_segment service_a = ''/svc-a''"
  by (simp add: name_segment_def service_a_def)

lemma sample_settle:
  \<open>settle sample_runtime (Reply sc ''{}'') = Fulfilled \<lparr>statusCode = sc, data = JObj []\<rparr>\<close>
  \<open>settle sample_runtime (Reply sc ''{"metadata":{"resourceVersion":"42"}}'')
     = Fulfilled \<lparr>statusCode = sc,
         data = JObj [(''metadata'', JObj [(''resourceVersion'', JStr ''42'')])]\<rparr>\<close>
  \<open>settle sample_runtime (Reply sc ''{"kind":"Status","code":409}'')
     = Fulfilled \<lparr>statusCode = sc, data = JObj [(''kind'', JStr ''Status''), (''code'', JNum 409)]\<rparr>\<close>
  \<open>settle sample_runtime (Reply sc ''{"kind":"Status","code":403}'')
     = Fulfilled \<lparr>statusCode = sc, data = JObj [(''kind'', JStr ''Status''), (''code'', JNum 403)]\<rparr>\<close>
  \<open>settle sample_runtime (Reply sc ''{"kind":"Status","code":404}'')
     = Fulfilled \<lparr>statusCode = sc, data = JObj [(''kind'', JStr ''Status''), (''code'', JNum 404)]\<rparr>\<close>
  \<open>settle sample_runtime (Reply sc ''Unauthorized'') = Uncaught (SyntaxError ''Unauthorized'')\<close>
  by (simp_all add: settle_def sample_JSON_parse sample_parse_def)

subsection \<open>\<^verbatim>\<open>applyObject\<close>: the create attempt\<close>

text \<open>
  C4. Whenever the create \<^verbatim>\<open>POST\<close> of \<^verbatim>\<open>applyObject\<close> is fulfilled with a status other
  than 409, \<^verbatim>\<open>applyObject\<close> is fulfilled with that very result, the caller's object is
  as before, and the requests sent are exactly one: the \<^verbatim>\<open>POST\<close> of the serialised object
  to the plural path. No read and no update is sent.
\<close>

theorem applyObject_created:
  assumes "post rt net (getPluralPath rt object) object None sent = (Fulfilled res, opts, sent1)"
    and "statusCode res \<noteq> 409"
  shows "applyObject rt net object sent = (Fulfilled res, object, sent1)
    \<and> (\<exists>c. sent1 = sent @ [c] \<and> sends ''POST'' (getPluralPath rt object) c
          \<and> map_of c ''postData'' = Some (Str (JSON_stringify rt object)))"
proof -
  have "applyObject rt net object sent = (Fulfilled res, object, sent1)"
    using assms by (simp add: applyObject_def)
  moreover have "sent1 = sent @ [body_options rt ''POST'' (getPluralPath rt object) object]"
    using assms(1) by (auto simp: post_plain)
  ultimately show ?thesis by (simp add: sends_body_options postData_body_options)
qed

theorem applyObject_created_witness:
  "post sample_runtime (scripted [Reply 201 ''{}'']) (getPluralPath sample_runtime service_a)
      service_a None []
     = (Fulfilled \<lparr>statusCode = 201, data = JObj []\<rparr>,
        body_options sample_runtime ''POST'' ''/api/v1/namespaces/ns1/services'' service_a,
        [body_options sample_runtime ''POST'' ''/api/v1/namespaces/ns1/services'' service_a])
   \<and> statusCode \<lparr>statusCode = 201, data = JObj []\<rparr> \<noteq> 409
   \<and> applyObject sample_runtime (scripted [Reply 201 ''{}'']) service_a []
     = (Fulfilled \<lparr>statusCode = 201, data = JObj []\<rparr>, service_a,
        [body_options sample_runtime ''POST'' ''/api/v1/namespaces/ns1/services'' service_a])"
proof -
  have h1: "post sample_runtime (scripted [Reply 201 ''{}''])
      (getPluralPath sample_runtime service_a) service_a None []
     = (Fulfilled \<lparr>statusCode = 201, data = JObj []\<rparr>,
        body_options sample_runtime ''POST'' ''/api/v1/namespaces/ns1/services'' service_a,
        [body_options sample_runtime ''POST'' ''/api/v1/namespaces/ns1/services'' service_a])"
    by (simp add: post_plain sample_plural_path scripted_def settle_def sample_JSON_parse
        sample_parse_def)
  have h2: "statusCode \<lparr>statusCode = 201, data = JObj []\<rparr> \<noteq> 409" by simp
  show ?thesis using h1 h2 applyObject_created [OF h1 h2] by simp
qed

subsection \<open>\<^verbatim>\<open>applyObject\<close>: the read that follows a conflict\<close>

text \<open>
  C1. The claim: when the create is answered with 409 and the read with a status other
  than 200, no update is sent and the result of the read is the result of \<^verbatim>\<open>applyObject\<close>,
  an ordinary result and not an error. The code sends no update, but it throws in the
  \<^verbatim>\<open>then\<close> callback, so the promise is rejected with the error
  \<^verbatim>\<open>k8s-apply cannot get object: ...\<close>. Here the server answers the create with 409 and
  the read with 403.
\<close>

theorem applyObject_read_refused_rejects:
  \<open>applyObject sample_runtime
      (scripted [Reply 409 ''{"kind":"Status","code":409}'',
                 Reply 403 ''{"kind":"Status","code":403}''])
      service_a []
    = (Rejected (CannotGetObject 403 (JObj [(''kind'', JStr ''Status''), (''code'', JNum 403)])),
       service_a,
       [body_options sample_runtime ''POST'' ''/api/v1/namespaces/ns1/services'' service_a,
        plain_options sample_runtime ''GET'' ''/api/v1/namespaces/ns1/services/svc-a''])\<close>
  by (simp add: applyObject_unfold sample_plural_path sample_name_segment scripted_def
      sample_settle)

text \<open>
  C5. Whenever the create is fulfilled with 409 and the read with a status other than 200,
  the caller's object after \<^verbatim>\<open>applyObject\<close> is the object as it was before: no field,
  and in particular not \<^verbatim>\<open>metadata.resourceVersion\<close>, has been written.
\<close>

theorem applyObject_read_refused_object_untouched:
  assumes "post rt net (getPluralPath rt object) object None sent = (Fulfilled res, opts, sent1)"
    and "statusCode res = 409"
    and "get rt net (getPluralPath rt object @ name_segment object) None sent1
           = (Fulfilled got, opts', sent2)"
    and "statusCode got \<noteq> 200"
  shows "fst (snd (applyObject rt net object sent)) = object"
  using assms by (simp add: applyObject_def)

theorem applyObject_read_refused_object_untouched_witness:
  \<open>statusCode \<lparr>statusCode = 409, data = JObj [(''kind'', JStr ''Status''), (''code'', JNum 409)]\<rparr>
     = 409
   \<and> statusCode \<lparr>statusCode = 404, data = JObj [(''kind'', JStr ''Status''), (''code'', JNum 404)]\<rparr>
     \<noteq> 200
   \<and> fst (snd (applyObject sample_runtime
        (scripted [Reply 409 ''{"kind":"Status","code":409}'',
                   Reply 404 ''{"kind":"Status","code":404}''])
        service_a []))
     = service_a\<close>
proof -
  let ?net = \<open>scripted [Reply 409 ''{"kind":"Status","code":409}'',
                 Reply 404 ''{"kind":"Status","code":404}'']\<close>
  let ?c = "body_options sample_runtime ''POST'' ''/api/v1/namespaces/ns1/services'' service_a"
  let ?r = "plain_options sample_runtime ''GET'' ''/api/v1/namespaces/ns1/services/svc-a''"
  let ?conflict = "\<lparr>statusCode = 409, data = JObj [(''kind'', JStr ''Status''), (''code'', JNum 409)]\<rparr>"
  let ?gone = "\<lparr>statusCode = 404, data = JObj [(''kind'', JStr ''Status''), (''code'', JNum 404)]\<rparr>"
  have h1: "post sample_runtime ?net (getPluralPath sample_runtime service_a) service_a None []
      = (Fulfilled ?conflict, ?c, [?c])"
    by (simp add: post_plain sample_plural_path scripted_def sample_settle)
  have h2: "statusCode ?conflict = 409" by simp
  have h3: "get sample_runtime ?net (getPluralPath sample_runtime service_a @ name_segment service_a)
        None [?c]
      = (Fulfilled ?gone, ?r, [?c, ?r])"
    by (simp add: get_plain sample_plural_path sample_name_segment scripted_def sample_settle)
  have h4: "statusCode ?gone \<noteq> 200" by simp
  show ?thesis
    using h2 h4 applyObject_read_refused_object_untouched [OF h1 h2 h3 h4] by simp
qed

subsection \<open>\<^verbatim>\<open>applyObject\<close>: the update\<close>

text \<open>
  C3, as stated: whenever the create is answered with 409 and the read with 200, one
  create, one read and one update are sent. It fails when the body of the read has no
  \<^verbatim>\<open>metadata\<close> object: \<^verbatim>\<open>getObject.metadata.resourceVersion\<close> throws a TypeError, the
  promise is rejected and no \<^verbatim>\<open>PUT\<close> is sent. Here the read is answered with status 200
  and the body \<^verbatim>\<open>{}\<close>.
\<close>

theorem applyObject_read_without_metadata:
  \<open>fst (post sample_runtime (scripted [Reply 409 ''{"kind":"Status","code":409}'', Reply 200 ''{}''])
          ''/api/v1/namespaces/ns1/services'' service_a None [])
     = Fulfilled \<lparr>statusCode = 409, data = JObj [(''kind'', JStr ''Status''), (''code'', JNum 409)]\<rparr>
   \<and> fst (get sample_runtime (scripted [Reply 409 ''{"kind":"Status","code":409}'', Reply 200 ''{}''])
          ''/api/v1/namespaces/ns1/services/svc-a'' None
          [body_options sample_runtime ''POST'' ''/api/v1/namespaces/ns1/services'' service_a])
     = Fulfilled \<lparr>statusCode = 200, data = JObj []\<rparr>
   \<and> applyObject sample_runtime
        (scripted [Reply 409 ''{"kind":"Status","code":409}'', Reply 200 ''{}'']) service_a []
     = (Rejected (TypeError ''resourceVersion''), service_a,
        [body_options sample_runtime ''POST'' ''/api/v1/namespaces/ns1/services'' service_a,
         plain_options sample_runtime ''GET'' ''/api/v1/namespaces/ns1/services/svc-a''])
   \<and> count_method ''PUT''
        (snd (snd (applyObject sample_runtime
          (scripted [Reply 409 ''{"kind":"Status","code":409}'', Reply 200 ''{}'']) service_a [])))
     = 0\<close>
  by (simp add: applyObject_unfold post_plain get_plain sample_plural_path sample_name_segment
      scripted_def sample_settle fetched_resourceVersion_def count_method_def
      method_of_options)

text \<open>
  C3, amended. Whenever the create is fulfilled with 409, the read is fulfilled with 200
  and \<^verbatim>\<open>metadata.resourceVersion\<close> can be read from the body of the read (the body is
  an object and its \<^verbatim>\<open>metadata\<close> is neither missing nor \<^verbatim>\<open>null\<close>), the requests sent
  are exactly three: the \<^verbatim>\<open>POST\<close> to the plural path, the \<^verbatim>\<open>GET\<close> and the \<^verbatim>\<open>PUT\<close> to
  the path of the object. The \<^verbatim>\<open>PUT\<close> carries the object with
  \<^verbatim>\<open>metadata.resourceVersion\<close> set to the value read, and the way the \<^verbatim>\<open>PUT\<close> ends is the
  way \<^verbatim>\<open>applyObject\<close> ends.
\<close>

theorem applyObject_replaced:
  assumes "post rt net (getPluralPath rt object) object None sent = (Fulfilled res, opts, sent1)"
    and "statusCode res = 409"
    and "get rt net (getPluralPath rt object @ name_segment object) None sent1
           = (Fulfilled got, opts', sent2)"
    and "statusCode got = 200"
    and "fetched_resourceVersion (data got) = Inr rv"
  shows "let p = getPluralPath rt object;
             q = getPluralPath rt object @ name_segment object;
             object' = object\<lparr>metadata := (metadata object)\<lparr>resourceVersion := rv\<rparr>\<rparr>;
             c = body_options rt ''POST'' p object;
             r = plain_options rt ''GET'' q;
             u = body_options rt ''PUT'' q object'
         in applyObject rt net object sent
              = (fst (put rt net q object' None sent2), object', sent @ [c, r, u])
          \<and> snd (put rt net q object' None sent2) = sent @ [c, r, u]
          \<and> fst (put rt net q object' None sent2) = settle rt (net (sent @ [c, r]) u)
          \<and> sends ''POST'' p c \<and> sends ''GET'' q r \<and> sends ''PUT'' q u
          \<and> map_of u ''postData'' = Some (Str (JSON_stringify rt object'))
          \<and> resourceVersion (metadata object') = rv"
proof -
  let ?p = "getPluralPath rt object"
  let ?q = "getPluralPath rt object @ name_segment object"
  let ?object' = "object\<lparr>metadata := (metadata object)\<lparr>resourceVersion := rv\<rparr>\<rparr>"
  let ?c = "body_options rt ''POST'' ?p object"
  let ?r = "plain_options rt ''GET'' ?q"
  let ?u = "body_options rt ''PUT'' ?q ?object'"
  have s1: "sent1 = sent @ [?c]" using assms(1) by (auto simp: post_plain)
  have s2: "sent2 = sent @ [?c, ?r]" using assms(3) by (auto simp: get_plain s1)
  have put: "put rt net ?q ?object' None sent2
      = (settle rt (net (sent @ [?c, ?r]) ?u), sent @ [?c, ?r, ?u])"
    by (simp add: put_plain s2)
  have run: "applyObject rt net object sent
      = (fst (put rt net ?q ?object' None sent2), ?object', sent @ [?c, ?r, ?u])"
    using assms by (simp add: applyObject_def put Let_def)
  show ?thesis
    unfolding Let_def using run put
    by (simp add: sends_body_options sends_plain_options postData_body_options)
qed

theorem applyObject_replaced_witness:
  \<open>statusCode \<lparr>statusCode = 409, data = JObj [(''kind'', JStr ''Status''), (''code'', JNum 409)]\<rparr>
     = 409
   \<and> fetched_resourceVersion (JObj [(''metadata'', JObj [(''resourceVersion'', JStr ''42'')])])
     = Inr (Some (JStr ''42''))
   \<and> applyObject sample_runtime
        (scripted [Reply 409 ''{"kind":"Status","code":409}'',
                   Reply 200 ''{"metadata":{"resourceVersion":"42"}}'',
                   Reply 200 ''{}''])
        service_a []
     = (Fulfilled \<lparr>statusCode = 200, data = JObj []\<rparr>,
        service_a\<lparr>metadata := (metadata service_a)\<lparr>resourceVersion := Some (JStr ''42'')\<rparr>\<rparr>,
        [body_options sample_runtime ''POST'' ''/api/v1/namespaces/ns1/services'' service_a,
         plain_options sample_runtime ''GET'' ''/api/v1/namespaces/ns1/services/svc-a'',
         body_options sample_runtime ''PUT'' ''/api/v1/namespaces/ns1/services/svc-a''
           (service_a\<lparr>metadata := (metadata service_a)\<lparr>resourceVersion := Some (JStr ''42'')\<rparr>\<rparr>)])\<close>
proof -
  let ?net = \<open>scripted [Reply 409 ''{"kind":"Status","code":409}'',
                   Reply 200 ''{"metadata":{"resourceVersion":"42"}}'',
                   Reply 200 ''{}'']\<close>
  let ?c = "body_options sample_runtime ''POST'' ''/api/v1/namespaces/ns1/services'' service_a"
  let ?r = "plain_options sample_runtime ''GET'' ''/api/v1/namespaces/ns1/services/svc-a''"
  let ?conflict = "\<lparr>statusCode = 409, data = JObj [(''kind'', JStr ''Status''), (''code'', JNum 409)]\<rparr>"
  let ?live = "\<lparr>statusCode = 200,
      data = JObj [(''metadata'', JObj [(''resourceVersion'', JStr ''42'')])]\<rparr>"
  have h1: "post sample_runtime ?net (getPluralPath sample_runtime service_a) service_a None []
      = (Fulfilled ?conflict, ?c, [?c])"
    by (simp add: post_plain sample_plural_path scripted_def sample_settle)
  have h2: "statusCode ?conflict = 409" by simp
  have h3: "get sample_runtime ?net (getPluralPath sample_runtime service_a @ name_segment service_a)
        None [?c]
      = (Fulfilled ?live, ?r, [?c, ?r])"
    by (simp add: get_plain sample_plural_path sample_name_segment scripted_def sample_settle)
  have h4: "statusCode ?live = 200" by simp
  have h5: "fetched_resourceVersion (data ?live) = Inr (Some (JStr ''42''))"
    by (simp add: fetched_resourceVersion_def)
  show ?thesis
    using h2 h5 applyObject_replaced [OF h1 h2 h3 h4 h5]
    by (simp add: Let_def sample_plural_path sample_name_segment scripted_def sample_settle)
qed

subsection \<open>\<^verbatim>\<open>delObject\<close>\<close>

lemma delObject_unfold:
  "delObject rt net object sent =
     (settle rt (net sent (plain_options rt ''DELETE'' (getPluralPath rt object @ name_segment object))),
      sent @ [plain_options rt ''DELETE'' (getPluralPath rt object @ name_segment object)])"
  by (simp add: delObject_def del_plain Let_def)

lemma written_plain_options: "written (plain_options rt m p) = None"
  by (simp add: written_def plain_options_def)

text \<open>
  C8. For an object that has a \<^verbatim>\<open>metadata.name\<close>, \<^verbatim>\<open>delObject\<close> sends exactly one
  request, a \<^verbatim>\<open>DELETE\<close> without body to the plural path followed by \<^verbatim>\<open>/\<close> and the name,
  and nothing before it; it ends the way that request ends. Whatever the status of the
  response (404 as any other), \<^verbatim>\<open>delObject\<close> is fulfilled with that status and the
  parsed body.
\<close>

theorem delObject_single_request:
  assumes "name (metadata object) = Some n"
  shows "let req = plain_options rt ''DELETE'' (getPluralPath rt object @ ''/'' @ n)
         in delObject rt net object sent = (settle rt (net sent req), sent @ [req])
          \<and> sends ''DELETE'' (getPluralPath rt object @ ''/'' @ n) req
          \<and> written req = None
          \<and> (net sent req = Reply sc body \<and> JSON_parse rt body = Some d
               \<longrightarrow> fst (delObject rt net object sent) = Fulfilled \<lparr>statusCode = sc, data = d\<rparr>)"
  using assms
  by (simp add: delObject_unfold name_segment_def sends_plain_options written_plain_options
      settle_def Let_def)

theorem delObject_single_request_witness:
  \<open>name (metadata service_a) = Some ''svc-a''
   \<and> delObject sample_runtime (scripted [Reply 404 ''{"kind":"Status","code":404}'']) service_a []
     = (Fulfilled \<lparr>statusCode = 404, data = JObj [(''kind'', JStr ''Status''), (''code'', JNum 404)]\<rparr>,
        [plain_options sample_runtime ''DELETE'' ''/api/v1/namespaces/ns1/services/svc-a''])\<close>
proof -
  have h: "name (metadata service_a) = Some ''svc-a''" by (simp add: service_a_def)
  show ?thesis
    using h delObject_single_request [OF h, of sample_runtime
        \<open>scripted [Reply 404 ''{"kind":"Status","code":404}'']\<close> "[]"]
    by (simp add: Let_def sample_plural_path scripted_def sample_settle)
qed

subsection \<open>Bodies that are not JSON\<close>

lemma request_sent:
  "request rt net path options sent = (out, opts', sent') \<Longrightarrow>
     sent' = sent \<or> (sent' = sent @ [opts'] \<and> out = settle rt (net sent opts'))"
  by (auto simp: request_def Let_def simp del: defaults.simps split: option.splits jsval.splits)

lemma settle_unparsable:
  "JSON_parse rt body = None \<Longrightarrow> settle rt (Reply sc body) = Uncaught (SyntaxError body)"
  by (simp add: settle_def)

lemma applyObject_stops_at_unparsable:
  assumes np: "JSON_parse rt body = None"
    and run: "applyObject rt net object sent = (out, object', sent @ reqs)"
    and i: "i < length reqs"
    and resp: "net (sent @ take i reqs) (reqs ! i) = Reply sc body"
  shows "out = Uncaught (SyntaxError body) \<and> Suc i = length reqs"
proof -
  define c where "c = body_options rt ''POST'' (getPluralPath rt object) object"
  define r where "r = plain_options rt ''GET'' (getPluralPath rt object @ name_segment object)"
  have U: "\<And>resp. resp = Reply sc body \<Longrightarrow> settle rt resp = Uncaught (SyntaxError body)"
    by (simp add: settle_unparsable [OF np])
  show ?thesis
  proof (cases "\<exists>res. settle rt (net sent c) = Fulfilled res \<and> statusCode res = 409")
    case False
    then have "applyObject rt net object sent = (settle rt (net sent c), object, sent @ [c])"
      by (auto simp: applyObject_unfold Let_def c_def split: outcome.splits)
    with run have "reqs = [c]" and out: "out = settle rt (net sent c)" by simp_all
    with i resp have "net sent c = Reply sc body" by simp
    with out U \<open>reqs = [c]\<close> i show ?thesis by simp
  next
    case True
    then obtain res where c409: "settle rt (net sent c) = Fulfilled res" "statusCode res = 409"
      by blast
    have notc: "net sent c \<noteq> Reply sc body" using c409 U by auto
    show ?thesis
    proof (cases "\<exists>got rv. settle rt (net (sent @ [c]) r) = Fulfilled got \<and> statusCode got = 200
        \<and> fetched_resourceVersion (data got) = Inr rv")
      case False
      then have "\<exists>o2. applyObject rt net object sent = (o2, object, sent @ [c, r])
          \<and> (settle rt (net (sent @ [c]) r) = Uncaught (SyntaxError body) \<longrightarrow> o2 = Uncaught (SyntaxError body))"
        using c409
        by (auto simp: applyObject_unfold Let_def c_def r_def split: outcome.splits sum.splits)
      then obtain o2 where "applyObject rt net object sent = (o2, object, sent @ [c, r])"
        and o2: "settle rt (net (sent @ [c]) r) = Uncaught (SyntaxError body) \<longrightarrow> o2 = Uncaught (SyntaxError body)"
        by blast
      with run have reqs: "reqs = [c, r]" and out: "out = o2" by simp_all
      from i reqs have "i = 0 \<or> i = 1" by auto
      then show ?thesis
      proof
        assume "i = 0"
        with resp reqs notc show ?thesis by simp
      next
        assume "i = 1"
        with resp reqs have "net (sent @ [c]) r = Reply sc body" by simp
        with U o2 out reqs \<open>i = 1\<close> show ?thesis by simp
      qed
    next
      case True
      then obtain got rv where g: "settle rt (net (sent @ [c]) r) = Fulfilled got"
        "statusCode got = 200" "fetched_resourceVersion (data got) = Inr rv"
        by blast
      have notr: "net (sent @ [c]) r \<noteq> Reply sc body" using g U by auto
      define u where "u = body_options rt ''PUT'' (getPluralPath rt object @ name_segment object)
        (object\<lparr>metadata := (metadata object)\<lparr>resourceVersion := rv\<rparr>\<rparr>)"
      have "applyObject rt net object sent
          = (settle rt (net (sent @ [c, r]) u),
             object\<lparr>metadata := (metadata object)\<lparr>resourceVersion := rv\<rparr>\<rparr>, sent @ [c, r, u])"
        using c409 g by (simp add: applyObject_unfold Let_def c_def r_def u_def)
      with run have reqs: "reqs = [c, r, u]" and out: "out = settle rt (net (sent @ [c, r]) u)"
        by simp_all
      from i reqs have "i = 0 \<or> i = 1 \<or> i = 2" by auto
      then show ?thesis
      proof (elim disjE)
        assume "i = 0"
        with resp reqs notc show ?thesis by simp
      next
        assume "i = 1"
        with resp reqs notr show ?thesis by simp
      next
        assume "i = 2"
        with resp reqs have "net (sent @ [c, r]) u = Reply sc body" by simp
        with U out reqs \<open>i = 2\<close> show ?thesis by simp
      qed
    qed
  qed
qed

text \<open>
  Whichever request gets a body that cannot be parsed is the last request sent, and the
  operation ends with the SyntaxError of \<^verbatim>\<open>JSON.parse\<close> as an uncaught exception: for
  \<^verbatim>\<open>request\<close>, through which every wrapper goes, and for \<^verbatim>\<open>applyObject\<close>.
\<close>

lemma unparsable_body_uncaught:
  assumes "JSON_parse rt body = None"
  shows "(request rt net path options sent = (out, opts', sent @ [req])
            \<and> net sent req = Reply sc body
          \<longrightarrow> out = Uncaught (SyntaxError body))
       \<and> (applyObject rt net object sent = (out', object', sent @ reqs)
            \<and> i < length reqs \<and> net (sent @ take i reqs) (reqs ! i) = Reply sc body
          \<longrightarrow> out' = Uncaught (SyntaxError body) \<and> Suc i = length reqs)"
proof (rule conjI)
  show "request rt net path options sent = (out, opts', sent @ [req])
            \<and> net sent req = Reply sc body
          \<longrightarrow> out = Uncaught (SyntaxError body)"
  proof
    assume a: "request rt net path options sent = (out, opts', sent @ [req])
            \<and> net sent req = Reply sc body"
    then have "sent @ [req] = sent @ [opts'] \<and> out = settle rt (net sent opts')"
      using request_sent [of rt net path options sent out opts' "sent @ [req]"] by auto
    with a show "out = Uncaught (SyntaxError body)"
      by (simp add: settle_unparsable [OF assms])
  qed
next
  show "applyObject rt net object sent = (out', object', sent @ reqs)
            \<and> i < length reqs \<and> net (sent @ take i reqs) (reqs ! i) = Reply sc body
          \<longrightarrow> out' = Uncaught (SyntaxError body) \<and> Suc i = length reqs"
    using applyObject_stops_at_unparsable [OF assms] by blast
qed

text \<open>
  C6. The claim: when the body of a response cannot be parsed, the request fails with an
  error that is thrown to the caller or that the promise is rejected with, and an
  enclosing \<^verbatim>\<open>applyObject\<close> is aborted by it. The code calls \<^verbatim>\<open>JSON.parse\<close> inside the
  \<^verbatim>\<open>"end"\<close> listener (line 53), after the promise executor has returned: the SyntaxError
  is not handed to \<^verbatim>\<open>reject\<close>, as the \<^verbatim>\<open>"error"\<close> event of the request is (line 55).
  The promise of \<^verbatim>\<open>request\<close>, and with it the promise of \<^verbatim>\<open>applyObject\<close>, is neither
  fulfilled nor rejected; the exception is uncaught. Here the server answers a \<^verbatim>\<open>GET\<close>
  with status 401 and the body \<^verbatim>\<open>Unauthorized\<close>, first on its own and then as the read
  that follows a conflict.
\<close>

theorem unparsable_body_not_rejected:
  \<open>JSON_parse sample_runtime ''Unauthorized'' = None
   \<and> request sample_runtime (scripted [Reply 401 ''Unauthorized'']) ''/api''
          (Some [(''method'', Str ''GET'')]) []
     = (Uncaught (SyntaxError ''Unauthorized''),
        plain_options sample_runtime ''GET'' ''/api'',
        [plain_options sample_runtime ''GET'' ''/api''])
   \<and> applyObject sample_runtime
          (scripted [Reply 409 ''{"kind":"Status","code":409}'', Reply 401 ''Unauthorized''])
          service_a []
     = (Uncaught (SyntaxError ''Unauthorized''), service_a,
        [body_options sample_runtime ''POST'' ''/api/v1/namespaces/ns1/services'' service_a,
         plain_options sample_runtime ''GET'' ''/api/v1/namespaces/ns1/services/svc-a''])\<close>
proof -
  have np: "JSON_parse sample_runtime ''Unauthorized'' = None"
    by (simp add: sample_JSON_parse sample_parse_def)
  have req: "request sample_runtime (scripted [Reply 401 ''Unauthorized'']) ''/api''
          (Some [(''method'', Str ''GET'')]) []
     = (Uncaught (SyntaxError ''Unauthorized''),
        plain_options sample_runtime ''GET'' ''/api'',
        [plain_options sample_runtime ''GET'' ''/api''])"
    by (simp add: request_def or_empty_def Let_def plain_options_def scripted_def
        sample_settle)
  have app: \<open>applyObject sample_runtime
          (scripted [Reply 409 ''{"kind":"Status","code":409}'', Reply 401 ''Unauthorized''])
          service_a []
     = (Uncaught (SyntaxError ''Unauthorized''), service_a,
        [body_options sample_runtime ''POST'' ''/api/v1/namespaces/ns1/services'' service_a,
         plain_options sample_runtime ''GET'' ''/api/v1/namespaces/ns1/services/svc-a''])\<close>
    by (simp add: applyObject_unfold sample_plural_path sample_name_segment scripted_def
        sample_settle)
  from np req app show ?thesis by (intro conjI)
qed

subsection \<open>What the reconciler writes to the caller's object\<close>

lemma applyObject_fields:
  "applyObject rt net object sent = (out, object', sent') \<Longrightarrow>
     apiVersion object' = apiVersion object \<and> kind object' = kind object
     \<and> other object' = other object
     \<and> namespace (metadata object') = namespace (metadata object)
     \<and> name (metadata object') = name (metadata object)
     \<and> meta_other (metadata object') = meta_other (metadata object)"
  by (auto simp: applyObject_unfold Let_def split: outcome.splits if_splits sum.splits)

lemma applyObject_write_then_put:
  "applyObject rt net object sent = (out, object', sent') \<Longrightarrow> object' \<noteq> object \<Longrightarrow>
     \<exists>before. sent' = before @
       [body_options rt ''PUT'' (getPluralPath rt object @ name_segment object) object']"
  by (auto simp: applyObject_unfold Let_def split: outcome.splits if_splits sum.splits)

lemma run_fields:
  "run rt net ops object sent = (object', sent') \<Longrightarrow>
     apiVersion object' = apiVersion object \<and> kind object' = kind object
     \<and> other object' = other object
     \<and> namespace (metadata object') = namespace (metadata object)
     \<and> name (metadata object') = name (metadata object)
     \<and> meta_other (metadata object') = meta_other (metadata object)"
proof (induction ops arbitrary: object sent)
  case Nil
  then show ?case by simp
next
  case (Cons op ops)
  show ?case
  proof (cases op)
    case ApplyObject
    obtain out o1 s1 where a: "applyObject rt net object sent = (out, o1, s1)"
      by (cases "applyObject rt net object sent") auto
    with Cons.prems ApplyObject have "run rt net ops o1 s1 = (object', sent')" by simp
    from Cons.IH [OF this] applyObject_fields [OF a] show ?thesis by simp
  next
    case DelObject
    obtain out s1 where d: "delObject rt net object sent = (out, s1)"
      by (cases "delObject rt net object sent") auto
    with Cons.prems DelObject have "run rt net ops object s1 = (object', sent')" by simp
    from Cons.IH [OF this] show ?thesis .
  qed
qed

text \<open>
  C9. After any sequence of \<^verbatim>\<open>applyObject\<close> and \<^verbatim>\<open>delObject\<close> on an object, every
  field of the object other than \<^verbatim>\<open>metadata.resourceVersion\<close> is as it was. When an
  \<^verbatim>\<open>applyObject\<close> has changed the object, the last request it sent is the \<^verbatim>\<open>PUT\<close> to
  the path of the object, carrying the object as changed. \<^verbatim>\<open>delObject\<close> leaves the
  object as it is.
\<close>

theorem reconciler_writes_only_resourceVersion:
  "(run rt net ops object sent = (object', sent') \<longrightarrow>
      apiVersion object' = apiVersion object \<and> kind object' = kind object
      \<and> other object' = other object
      \<and> namespace (metadata object') = namespace (metadata object)
      \<and> name (metadata object') = name (metadata object)
      \<and> meta_other (metadata object') = meta_other (metadata object))
   \<and> (applyObject rt net object sent = (out, object1, sent1) \<and> object1 \<noteq> object \<longrightarrow>
      (\<exists>before u. sent1 = before @ [u]
         \<and> sends ''PUT'' (getPluralPath rt object @ name_segment object) u
         \<and> map_of u ''postData'' = Some (Str (JSON_stringify rt object1))))
   \<and> (run rt net [DelObject] object sent = (object2, sent2) \<longrightarrow> object2 = object)"
proof (intro conjI)
  show "run rt net ops object sent = (object', sent') \<longrightarrow>
      apiVersion object' = apiVersion object \<and> kind object' = kind object
      \<and> other object' = other object
      \<and> namespace (metadata object') = namespace (metadata object)
      \<and> name (metadata object') = name (metadata object)
      \<and> meta_other (metadata object') = meta_other (metadata object)"
    using run_fields by blast
next
  show "applyObject rt net object sent = (out, object1, sent1) \<and> object1 \<noteq> object \<longrightarrow>
      (\<exists>before u. sent1 = before @ [u]
         \<and> sends ''PUT'' (getPluralPath rt object @ name_segment object) u
         \<and> map_of u ''postData'' = Some (Str (JSON_stringify rt object1)))"
  proof
    assume a: "applyObject rt net object sent = (out, object1, sent1) \<and> object1 \<noteq> object"
    then obtain before where "sent1 = before @
       [body_options rt ''PUT'' (getPluralPath rt object @ name_segment object) object1]"
      using applyObject_write_then_put by blast
    then show "\<exists>before u. sent1 = before @ [u]
         \<and> sends ''PUT'' (getPluralPath rt object @ name_segment object) u
         \<and> map_of u ''postData'' = Some (Str (JSON_stringify rt object1))"
      using sends_body_options postData_body_options by fastforce
  qed
next
  show "run rt net [DelObject] object sent = (object2, sent2) \<longrightarrow> object2 = object"
    by (auto split: prod.splits)
qed

theorem reconciler_writes_only_resourceVersion_witness:
  \<open>apiVersion (fst (run sample_runtime
        (scripted [Reply 409 ''{"kind":"Status","code":409}'',
                   Reply 200 ''{"metadata":{"resourceVersion":"42"}}'',
                   Reply 200 ''{}'',
                   Reply 404 ''{"kind":"Status","code":404}''])
        [ApplyObject, DelObject] service_a [])) = ''v1''
   \<and> name (metadata (fst (run sample_runtime
        (scripted [Reply 409 ''{"kind":"Status","code":409}'',
                   Reply 200 ''{"metadata":{"resourceVersion":"42"}}'',
                   Reply 200 ''{}'',
                   Reply 404 ''{"kind":"Status","code":404}''])
        [ApplyObject, DelObject] service_a []))) = Some ''svc-a''
   \<and> service_a\<lparr>metadata := (metadata service_a)\<lparr>resourceVersion := Some (JStr ''42'')\<rparr>\<rparr>
       \<noteq> service_a
   \<and> (\<exists>before u.
         [body_options sample_runtime ''POST'' ''/api/v1/namespaces/ns1/services'' service_a,
          plain_options sample_runtime ''GET'' ''/api/v1/namespaces/ns1/services/svc-a'',
          body_options sample_runtime ''PUT'' ''/api/v1/namespaces/ns1/services/svc-a''
            (service_a\<lparr>metadata := (metadata service_a)\<lparr>resourceVersion := Some (JStr ''42'')\<rparr>\<rparr>)]
           = before @ [u]
       \<and> sends ''PUT'' ''/api/v1/namespaces/ns1/services/svc-a'' u
       \<and> map_of u ''postData'' = Some (Str (JSON_stringify sample_runtime
            (service_a\<lparr>metadata := (metadata service_a)\<lparr>resourceVersion := Some (JStr ''42'')\<rparr>\<rparr>))))
   \<and> fst (run sample_runtime (scripted [Reply 404 ''{"kind":"Status","code":404}''])
        [DelObject] service_a []) = service_a\<close>
proof -
  let ?net = \<open>scripted [Reply 409 ''{"kind":"Status","code":409}'',
                   Reply 200 ''{"metadata":{"resourceVersion":"42"}}'',
                   Reply 200 ''{}'',
                   Reply 404 ''{"kind":"Status","code":404}'']\<close>
  let ?net' = \<open>scripted [Reply 404 ''{"kind":"Status","code":404}'']\<close>
  let ?o = "service_a\<lparr>metadata := (metadata service_a)\<lparr>resourceVersion := Some (JStr ''42'')\<rparr>\<rparr>"
  let ?c = "body_options sample_runtime ''POST'' ''/api/v1/namespaces/ns1/services'' service_a"
  let ?r = "plain_options sample_runtime ''GET'' ''/api/v1/namespaces/ns1/services/svc-a''"
  let ?u = "body_options sample_runtime ''PUT'' ''/api/v1/namespaces/ns1/services/svc-a'' ?o"
  have h1: "run sample_runtime ?net [ApplyObject, DelObject] service_a []
      = (fst (run sample_runtime ?net [ApplyObject, DelObject] service_a []),
         snd (run sample_runtime ?net [ApplyObject, DelObject] service_a []))"
    by simp
  have h2: "applyObject sample_runtime ?net service_a []
      = (Fulfilled \<lparr>statusCode = 200, data = JObj []\<rparr>, ?o, [?c, ?r, ?u])"
    by (simp add: applyObject_unfold sample_plural_path sample_name_segment scripted_def
        sample_settle fetched_resourceVersion_def Let_def)
  have h3: "?o \<noteq> service_a" by (simp add: service_a_def)
  have h4: "run sample_runtime ?net' [DelObject] service_a []
      = (fst (run sample_runtime ?net' [DelObject] service_a []),
         snd (run sample_runtime ?net' [DelObject] service_a []))"
    by simp
  have p: "getPluralPath sample_runtime service_a @ name_segment service_a
      = ''/api/v1/namespaces/ns1/services/svc-a''"
    by (simp add: sample_plural_path sample_name_segment)
  note T = reconciler_writes_only_resourceVersion
  from T [THEN conjunct1, THEN mp, OF h1]
  have a: "apiVersion (fst (run sample_runtime ?net [ApplyObject, DelObject] service_a [])) = ''v1''
      \<and> name (metadata (fst (run sample_runtime ?net [ApplyObject, DelObject] service_a [])))
          = Some ''svc-a''"
    by (simp add: service_a_def)
  from T [THEN conjunct2, THEN conjunct1, THEN mp, OF conjI [OF h2 h3]]
  have b: "\<exists>before u. [?c, ?r, ?u] = before @ [u]
       \<and> sends ''PUT'' ''/api/v1/namespaces/ns1/services/svc-a'' u
       \<and> map_of u ''postData'' = Some (Str (JSON_stringify sample_runtime ?o))"
    by (simp only: p)
  from T [THEN conjunct2, THEN conjunct2, THEN mp, OF h4]
  have c: "fst (run sample_runtime ?net' [DelObject] service_a []) = service_a" .
  from a b c h3 show ?thesis by simp
qed

subsection \<open>\<^verbatim>\<open>getPluralPath\<close>\<close>

lemma indexOf_ge: "- 1 \<le> indexOf s c"
  by (induction s) (auto simp: Let_def)

lemma indexOf_absent: "indexOf s c < 0 \<longleftrightarrow> c \<notin> set s"
  using indexOf_ge [of _ c] by (induction s) (auto simp: Let_def)

lemma indexOf_positive: "0 < indexOf s c \<longleftrightarrow> c \<in> set s \<and> take 1 s \<noteq> [c]"
proof (cases s)
  case Nil
  then show ?thesis by simp
next
  case (Cons x xs)
  show ?thesis
  proof (cases "x = c")
    case True
    with Cons show ?thesis by simp
  next
    case False
    have "0 < indexOf (x # xs) c \<longleftrightarrow> \<not> indexOf xs c < 0"
      using False indexOf_ge [of xs c] by (auto simp: Let_def)
    with False Cons show ?thesis by (auto simp: indexOf_absent)
  qed
qed

text \<open>
  C2, as stated: the path starts with \<^verbatim>\<open>/apis/\<close> whenever \<^verbatim>\<open>apiVersion\<close> contains a
  \<^verbatim>\<open>/\<close>. The code tests \<^verbatim>\<open>indexOf("/") > 0\<close>, so an \<^verbatim>\<open>apiVersion\<close> whose first
  character is the \<^verbatim>\<open>/\<close> gets \<^verbatim>\<open>/api/\<close>. Here \<^verbatim>\<open>apiVersion\<close> is \<^verbatim>\<open>/v1\<close>.
\<close>

theorem getPluralPath_leading_slash:
  "CHR ''/'' \<in> set (apiVersion (service_a\<lparr>apiVersion := ''/v1''\<rparr>))
   \<and> getPluralPath sample_runtime (service_a\<lparr>apiVersion := ''/v1''\<rparr>)
       = ''/api//v1/namespaces/ns1/services''
   \<and> getPluralPath sample_runtime (service_a\<lparr>apiVersion := ''/v1''\<rparr>)
       \<noteq> ''/apis/'' @ apiVersion (service_a\<lparr>apiVersion := ''/v1''\<rparr>) @ ''/namespaces/''
           @ namespace (metadata (service_a\<lparr>apiVersion := ''/v1''\<rparr>)) @ ''/''
           @ toLowerCase sample_runtime (kind (service_a\<lparr>apiVersion := ''/v1''\<rparr>)) @ ''s''"
  by (simp add: getPluralPath_def sample_runtime_def service_a_def ascii_toLowerCase_def)

text \<open>
  C2, amended. The path is \<^verbatim>\<open>/apis/\<close>, \<^verbatim>\<open>apiVersion\<close>, \<^verbatim>\<open>/namespaces/\<close>, the
  namespace, \<^verbatim>\<open>/\<close>, the lower-cased kind and \<^verbatim>\<open>s\<close> when \<^verbatim>\<open>apiVersion\<close> contains a
  \<^verbatim>\<open>/\<close> and does not start with one; it is the same string with \<^verbatim>\<open>/api/\<close> in front
  when \<^verbatim>\<open>apiVersion\<close> contains no \<^verbatim>\<open>/\<close> or starts with one. In every case the path ends
  with \<^verbatim>\<open>/\<close>, the lower-cased kind and one \<^verbatim>\<open>s\<close>.
\<close>

theorem getPluralPath_shape:
  "(CHR ''/'' \<in> set (apiVersion object) \<and> take 1 (apiVersion object) \<noteq> ''/'' \<longrightarrow>
      getPluralPath rt object
        = ''/apis/'' @ apiVersion object @ ''/namespaces/'' @ namespace (metadata object)
            @ ''/'' @ toLowerCase rt (kind object) @ ''s'')
   \<and> (CHR ''/'' \<notin> set (apiVersion object) \<or> take 1 (apiVersion object) = ''/'' \<longrightarrow>
      getPluralPath rt object
        = ''/api/'' @ apiVersion object @ ''/namespaces/'' @ namespace (metadata object)
            @ ''/'' @ toLowerCase rt (kind object) @ ''s'')
   \<and> (\<exists>front. getPluralPath rt object = front @ ''/'' @ toLowerCase rt (kind object) @ ''s'')"
proof (intro conjI)
  show "CHR ''/'' \<in> set (apiVersion object) \<and> take 1 (apiVersion object) \<noteq> ''/'' \<longrightarrow>
      getPluralPath rt object
        = ''/apis/'' @ apiVersion object @ ''/namespaces/'' @ namespace (metadata object)
            @ ''/'' @ toLowerCase rt (kind object) @ ''s''"
    by (simp add: getPluralPath_def indexOf_positive)
  show "CHR ''/'' \<notin> set (apiVersion object) \<or> take 1 (apiVersion object) = ''/'' \<longrightarrow>
      getPluralPath rt object
        = ''/api/'' @ apiVersion object @ ''/namespaces/'' @ namespace (metadata object)
            @ ''/'' @ toLowerCase rt (kind object) @ ''s''"
    by (auto simp: getPluralPath_def indexOf_positive)
  show "\<exists>front. getPluralPath rt object = front @ ''/'' @ toLowerCase rt (kind object) @ ''s''"
    by (rule exI [where x = "''/api'' @ (if indexOf (apiVersion object) CHR ''/'' > 0 then ''s'' else [])
          @ ''/'' @ apiVersion object @ ''/namespaces/'' @ namespace (metadata object)"])
      (simp add: getPluralPath_def)
qed

theorem getPluralPath_shape_witness:
  "CHR ''/'' \<in> set (apiVersion (service_a\<lparr>apiVersion := ''apps/v1'', kind := ''Proxy''\<rparr>))
   \<and> take 1 (apiVersion (service_a\<lparr>apiVersion := ''apps/v1'', kind := ''Proxy''\<rparr>)) \<noteq> ''/''
   \<and> getPluralPath sample_runtime (service_a\<lparr>apiVersion := ''apps/v1'', kind := ''Proxy''\<rparr>)
       = ''/apis/apps/v1/namespaces/ns1/proxys''
   \<and> CHR ''/'' \<notin> set (apiVersion service_a)
   \<and> getPluralPath sample_runtime service_a = ''/api/v1/namespaces/ns1/services''"
proof -
  let ?o = "service_a\<lparr>apiVersion := ''apps/v1'', kind := ''Proxy''\<rparr>"
  have h1: "CHR ''/'' \<in> set (apiVersion ?o) \<and> take 1 (apiVersion ?o) \<noteq> ''/''" by simp
  have h2: "CHR ''/'' \<notin> set (apiVersion service_a) \<or> take 1 (apiVersion service_a) = ''/''"
    by (simp add: service_a_def)
  have l: "toLowerCase sample_runtime = ascii_toLowerCase" by (simp add: sample_runtime_def)
  note T = getPluralPath_shape
  from T [THEN conjunct1, THEN mp, OF h1, of sample_runtime]
    T [THEN conjunct2, THEN conjunct1, THEN mp, OF h2, of sample_runtime] h1 h2
  show ?thesis by (simp add: l service_a_def ascii_toLowerCase_def)
qed

subsection \<open>\<^verbatim>\<open>put\<close> and \<^verbatim>\<open>post\<close>\<close>

text \<open>
  Called without options, \<^verbatim>\<open>put(path, object)\<close> sends the request that
  \<^verbatim>\<open>post(path, object)\<close> sends, with the method \<^verbatim>\<open>PUT\<close> in place of \<^verbatim>\<open>POST\<close>:
  \<^verbatim>\<open>postData\<close> is the serialised object (written to the request as its body unless it
  is the empty string), Content-Type is \<^verbatim>\<open>application/json\<close> and Content-Length is the
  byte length of the serialised object.
\<close>

lemma put_without_options:
  "snd (snd (post rt net path object None sent)) = sent @ [body_options rt ''POST'' path object]
   \<and> snd (put rt net path object None sent)
       = sent @ [AList.update ''method'' (Str ''PUT'') (body_options rt ''POST'' path object)]
   \<and> fst (put rt net path object None sent)
       = settle rt (net sent (AList.update ''method'' (Str ''PUT'') (body_options rt ''POST'' path object)))
   \<and> map_of (body_options rt ''POST'' path object) ''method'' = Some (Str ''POST'')
   \<and> map_of (body_options rt ''POST'' path object) ''postData''
       = Some (Str (JSON_stringify rt object))
   \<and> header (body_options rt ''POST'' path object) ''Content-Type''
       = Some (Str ''application/json'')
   \<and> header (body_options rt ''POST'' path object) ''Content-Length''
       = Some (Num (int (byteLength rt (JSON_stringify rt object))))
   \<and> written (body_options rt ''POST'' path object)
       = (if JSON_stringify rt object = [] then None
          else Some (Str (JSON_stringify rt object)))
   \<and> AList.update ''method'' (Str ''PUT'') (body_options rt ''POST'' path object)
       = body_options rt ''PUT'' path object"
  by (simp add: post_plain put_plain body_options_def header_def written_def)

text \<open>
  C7. The claim: for every path, object and options of the caller,
  \<^verbatim>\<open>put(path, object, options)\<close> sends the request that \<^verbatim>\<open>post(path, object, options)\<close>
  sends, with the same body, Content-Type and Content-Length, but for the method. The
  code of \<^verbatim>\<open>put\<close> calls \<^verbatim>\<open>this.post( path, object, { method: "PUT" })\<close> (line 78): the
  \<^verbatim>\<open>options\<close> parameter is not passed on. Here the caller's options are
  \<^verbatim>\<open>{ timeout: 5000 }\<close>: body, Content-Type and Content-Length are the same in both
  requests, the request of \<^verbatim>\<open>post\<close> has the caller's \<^verbatim>\<open>timeout\<close> and the request of
  \<^verbatim>\<open>put\<close> has not.
\<close>

theorem put_drops_options:
  "map_of (last (snd (put sample_runtime (scripted []) ''/api/v1/namespaces/ns1/services/svc-a''
        service_a (Some [(''timeout'', Num 5000)]) []))) ''timeout''
     = None
   \<and> map_of (last (snd (snd (post sample_runtime (scripted [])
        ''/api/v1/namespaces/ns1/services/svc-a''
        service_a (Some [(''timeout'', Num 5000)]) [])))) ''timeout''
     = Some (Num 5000)
   \<and> map_of (last (snd (put sample_runtime (scripted []) ''/api/v1/namespaces/ns1/services/svc-a''
        service_a (Some [(''timeout'', Num 5000)]) []))) ''method''
     = Some (Str ''PUT'')
   \<and> map_of (last (snd (snd (post sample_runtime (scripted [])
        ''/api/v1/namespaces/ns1/services/svc-a''
        service_a (Some [(''timeout'', Num 5000)]) [])))) ''method''
     = Some (Str ''POST'')
   \<and> map_of (last (snd (put sample_runtime (scripted []) ''/api/v1/namespaces/ns1/services/svc-a''
        service_a (Some [(''timeout'', Num 5000)]) []))) ''postData''
     = Some (Str (JSON_stringify sample_runtime service_a))
   \<and> map_of (last (snd (snd (post sample_runtime (scripted [])
        ''/api/v1/namespaces/ns1/services/svc-a''
        service_a (Some [(''timeout'', Num 5000)]) [])))) ''postData''
     = Some (Str (JSON_stringify sample_runtime service_a))
   \<and> header (last (snd (put sample_runtime (scripted []) ''/api/v1/namespaces/ns1/services/svc-a''
        service_a (Some [(''timeout'', Num 5000)]) []))) ''Content-Type''
     = Some (Str ''application/json'')
   \<and> header (last (snd (snd (post sample_runtime (scripted [])
        ''/api/v1/namespaces/ns1/services/svc-a''
        service_a (Some [(''timeout'', Num 5000)]) [])))) ''Content-Type''
     = Some (Str ''application/json'')
   \<and> header (last (snd (put sample_runtime (scripted []) ''/api/v1/namespaces/ns1/services/svc-a''
        service_a (Some [(''timeout'', Num 5000)]) []))) ''Content-Length''
     = Some (Num (int (byteLength sample_runtime (JSON_stringify sample_runtime service_a))))
   \<and> header (last (snd (snd (post sample_runtime (scripted [])
        ''/api/v1/namespaces/ns1/services/svc-a''
        service_a (Some [(''timeout'', Num 5000)]) [])))) ''Content-Length''
     = Some (Num (int (byteLength sample_runtime (JSON_stringify sample_runtime service_a))))"
proof -
  have u: "snd (put sample_runtime (scripted []) ''/api/v1/namespaces/ns1/services/svc-a''
        service_a (Some [(''timeout'', Num 5000)]) [])
      = [body_options sample_runtime ''PUT'' ''/api/v1/namespaces/ns1/services/svc-a'' service_a]"
    by (simp add: put_plain)
  have c: "snd (snd (post sample_runtime (scripted [])
        ''/api/v1/namespaces/ns1/services/svc-a''
        service_a (Some [(''timeout'', Num 5000)]) []))
      = [(''timeout'', Num 5000)
         # body_options sample_runtime ''POST'' ''/api/v1/namespaces/ns1/services/svc-a''
             service_a]"
    by (simp add: post_def request_def or_empty_def Let_def body_options_def)
  show ?thesis
    unfolding u c by (simp add: header_def body_options_def)
qed

subsection \<open>The caller's options object\<close>

declare defaults.simps [simp del]

lemma defaults_single:
  "defaults target [(key, v)] = (if key \<in> fst ` set target then target else target @ [(key, v)])"
  by (simp add: update_fresh defaults.simps)

lemma request_after:
  "fst (snd (request rt net path (Some opts) sent)) =
     (let o1 = defaults opts
            [(''hostname'', Str (KUBERNETES_SERVICE_HOST rt)), (''port'', Num 443),
             (''path'', Str path), (''method'', Str ''GET''), (''headers'', Obj [])]
      in case map_of o1 ''headers'' of
           Some (Obj hs) \<Rightarrow>
             AList.update ''headers''
               (Obj (defaults hs [(''Authorization'', Str (''Bearer '' @ token rt))])) o1
         | _ \<Rightarrow> o1)"
  by (simp add: request_def or_empty_def Let_def split: option.split jsval.split)

lemma keys_after_request:
  "fst ` set (fst (snd (request rt net path (Some opts) sent)))
     = fst ` set opts \<union> {''hostname'', ''port'', ''path'', ''method'', ''headers''}"
  by (auto simp: request_after Let_def AList.dom_update keys_defaults
      split: option.split jsval.split)


lemma after_request_no_headers:
  "map_of opts ''headers'' = None \<Longrightarrow>
     fst (snd (request rt net path (Some opts) sent)) =
       AList.update ''headers'' (Obj [(''Authorization'', Str (''Bearer '' @ token rt))])
         (defaults opts
            [(''hostname'', Str (KUBERNETES_SERVICE_HOST rt)), (''port'', Num 443),
             (''path'', Str path), (''method'', Str ''GET''), (''headers'', Obj [])])"
  by (simp add: request_after Let_def map_of_defaults defaults_single)

lemma after_request_headers:
  "map_of opts ''headers'' = Some (Obj hs) \<Longrightarrow>
     fst (snd (request rt net path (Some opts) sent)) =
       AList.update ''headers''
         (Obj (defaults hs [(''Authorization'', Str (''Bearer '' @ token rt))]))
         (defaults opts
            [(''hostname'', Str (KUBERNETES_SERVICE_HOST rt)), (''port'', Num 443),
             (''path'', Str path), (''method'', Str ''GET''), (''headers'', Obj [])])"
  by (simp add: request_after Let_def map_of_defaults)

lemma after_request_bad_headers:
  "map_of opts ''headers'' = Some v \<Longrightarrow> \<forall>hs. v \<noteq> Obj hs \<Longrightarrow>
     fst (snd (request rt net path (Some opts) sent)) =
       defaults opts
         [(''hostname'', Str (KUBERNETES_SERVICE_HOST rt)), (''port'', Num 443),
          (''path'', Str path), (''method'', Str ''GET''), (''headers'', Obj [])]"
  by (cases v) (simp_all add: request_after Let_def map_of_defaults)

lemma map_of_after_request_headers:
  "map_of (fst (snd (request rt net path (Some opts) sent))) ''headers''
     = with_authorization rt (map_of opts ''headers'') []"
proof (cases "map_of opts ''headers''")
  case None
  then show ?thesis
    by (simp add: after_request_no_headers AList.update_conv' with_authorization_def)
next
  case (Some v)
  show ?thesis
  proof (cases v)
    case (Obj hs)
    with Some show ?thesis
      by (simp add: after_request_headers AList.update_conv' with_authorization_def defaults_single)
  next
    case (Str x)
    with Some show ?thesis
      by (simp add: after_request_bad_headers map_of_defaults with_authorization_def)
  next
    case (Num x)
    with Some show ?thesis
      by (simp add: after_request_bad_headers map_of_defaults with_authorization_def)
  qed
qed

lemma map_of_after_request_other:
  assumes "k \<noteq> ''headers''"
  shows "map_of (fst (snd (request rt net path (Some opts) sent))) k
     = map_of (defaults opts
         [(''hostname'', Str (KUBERNETES_SERVICE_HOST rt)), (''port'', Num 443),
          (''path'', Str path), (''method'', Str ''GET''), (''headers'', Obj [])]) k"
proof (cases "map_of opts ''headers''")
  case None
  with assms show ?thesis
    by (simp add: after_request_no_headers AList.update_conv')
next
  case (Some v)
  show ?thesis
  proof (cases "\<exists>hs. v = Obj hs")
    case True
    then obtain hs where "v = Obj hs" by blast
    with Some assms show ?thesis
      by (simp add: after_request_headers AList.update_conv')
  next
    case False
    with Some assms show ?thesis
      by (simp add: after_request_bad_headers)
  qed
qed

lemma map_of_after_request_keys:
  "map_of (fst (snd (request rt net path (Some opts) sent))) ''hostname''
     = or_default (map_of opts ''hostname'') (Str (KUBERNETES_SERVICE_HOST rt))"
  "map_of (fst (snd (request rt net path (Some opts) sent))) ''port''
     = or_default (map_of opts ''port'') (Num 443)"
  "map_of (fst (snd (request rt net path (Some opts) sent))) ''path''
     = or_default (map_of opts ''path'') (Str path)"
  "map_of (fst (snd (request rt net path (Some opts) sent))) ''method''
     = or_default (map_of opts ''method'') (Str ''GET'')"
  by (simp_all add: map_of_after_request_other map_of_defaults or_default_def split: option.split)

lemma map_of_after_request_rest:
  "k \<notin> {''hostname'', ''port'', ''path'', ''method'', ''headers''} \<Longrightarrow>
     map_of (fst (snd (request rt net path (Some opts) sent))) k = map_of opts k"
  by (simp add: map_of_after_request_other map_of_defaults split: option.split)

lemma un_absorbed: "A \<union> K = A \<Longrightarrow> K \<subseteq> A"
  by blast

lemma request_unchanged_iff:
  "fst (snd (request rt net path (Some opts) sent)) = opts \<longleftrightarrow> all_present opts"
proof -
  let ?D = "[(''hostname'', Str (KUBERNETES_SERVICE_HOST rt)), (''port'', Num 443),
             (''path'', Str path), (''method'', Str ''GET''), (''headers'', Obj [])]"
  let ?K = "{''hostname'', ''port'', ''path'', ''method'', ''headers''}"
  let ?auth = "[(''Authorization'', Str (''Bearer '' @ token rt))]"
  let ?after = "fst (snd (request rt net path (Some opts) sent))"
  have "fst ` set ?D = ?K" by simp
  then have D: "defaults opts ?D = opts \<longleftrightarrow> ?K \<subseteq> fst ` set opts"
    using defaults_unchanged_iff [of opts ?D] by simp
  show ?thesis
  proof
    assume same: "?after = opts"
    have "fst ` set opts \<union> ?K = fst ` set ?after"
      by (rule keys_after_request [symmetric])
    also have "\<dots> = fst ` set opts" by (simp only: same)
    finally have "fst ` set opts \<union> ?K = fst ` set opts" .
    then have K: "?K \<subseteq> fst ` set opts" by (rule un_absorbed)
    with D have o1: "defaults opts ?D = opts" by (rule iffD2)
    have "''Authorization'' \<in> fst ` set hs" if h: "map_of opts ''headers'' = Some (Obj hs)" for hs
    proof -
      have "?after = AList.update ''headers'' (Obj (defaults hs ?auth)) opts"
        using after_request_headers [OF h, of rt net path sent] o1 by simp
      with same have "AList.update ''headers'' (Obj (defaults hs ?auth)) opts = opts" by simp
      then have "map_of (AList.update ''headers'' (Obj (defaults hs ?auth)) opts) ''headers''
          = Some (Obj hs)" using h by simp
      then have "defaults hs ?auth = hs" by (simp add: AList.update_conv')
      then show ?thesis using defaults_unchanged_iff [of hs ?auth] by simp
    qed
    with K show "all_present opts" unfolding all_present_def by (intro conjI allI impI)
  next
    assume c: "all_present opts"
    then have K: "?K \<subseteq> fst ` set opts" unfolding all_present_def by (rule conjunct1)
    with D have o1: "defaults opts ?D = opts" by (rule iffD2)
    from K have "''headers'' \<in> fst ` set opts" by simp
    then obtain v where v: "map_of opts ''headers'' = Some v"
      by (cases "map_of opts ''headers''") (auto simp: map_of_eq_None_iff)
    show "?after = opts"
    proof (cases "\<exists>hs. v = Obj hs")
      case True
      then obtain hs where "v = Obj hs" ..
      with v have h: "map_of opts ''headers'' = Some (Obj hs)" by simp
      from c have "\<forall>hs. map_of opts ''headers'' = Some (Obj hs) \<longrightarrow> ''Authorization'' \<in> fst ` set hs"
        unfolding all_present_def by (rule conjunct2)
      with h have "''Authorization'' \<in> fst ` set hs" by simp
      then have "defaults hs ?auth = hs" using defaults_unchanged_iff [of hs ?auth] by simp
      then have "?after = AList.update ''headers'' (Obj hs) opts"
        using after_request_headers [OF h, of rt net path sent] o1 by simp
      then show ?thesis using h by (simp add: AList.update_triv)
    next
      case False
      then have "\<forall>hs. v \<noteq> Obj hs" by simp
      from after_request_bad_headers [OF v this, of rt net path sent] o1
      show ?thesis by simp
    qed
  qed
qed

lemma wrapped_unchanged_iff:
  "fst (snd (request rt net path (Some (defaults opts ds)) sent)) = opts
     \<longleftrightarrow> fst ` set ds \<subseteq> fst ` set opts \<and> all_present opts"
proof
  let ?K = "{''hostname'', ''port'', ''path'', ''method'', ''headers''}"
  let ?after = "fst (snd (request rt net path (Some (defaults opts ds)) sent))"
  assume same: "?after = opts"
  have "(fst ` set opts \<union> fst ` set ds) \<union> ?K = fst ` set ?after"
    by (simp only: keys_after_request keys_defaults)
  also have "\<dots> = fst ` set opts" by (simp only: same)
  finally have "fst ` set opts \<union> (fst ` set ds \<union> ?K) = fst ` set opts"
    by (simp only: Un_assoc)
  then have "fst ` set ds \<union> ?K \<subseteq> fst ` set opts" by (rule un_absorbed)
  then have ds: "fst ` set ds \<subseteq> fst ` set opts" by (rule le_supE)
  then have "defaults opts ds = opts" by (simp only: defaults_unchanged_iff)
  with same have "fst (snd (request rt net path (Some opts) sent)) = opts" by simp
  then have "all_present opts" by (simp only: request_unchanged_iff)
  with ds show "fst ` set ds \<subseteq> fst ` set opts \<and> all_present opts" by (rule conjI)
next
  assume a: "fst ` set ds \<subseteq> fst ` set opts \<and> all_present opts"
  then have "defaults opts ds = opts" by (simp only: defaults_unchanged_iff)
  moreover from a have "fst (snd (request rt net path (Some opts) sent)) = opts"
    by (simp only: request_unchanged_iff)
  ultimately show "fst (snd (request rt net path (Some (defaults opts ds)) sent)) = opts"
    by simp
qed

lemma get_after:
  "fst (snd (get rt net path (Some opts) sent))
     = fst (snd (request rt net path (Some (defaults opts [(''method'', Str ''GET'')])) sent))"
  by (simp add: get_def or_empty_def)

lemma post_after:
  "fst (snd (post rt net path object (Some opts) sent))
     = fst (snd (request rt net path
         (Some (defaults opts
            [(''method'', Str ''POST''),
             (''headers'', Obj
                [(''Content-Type'', Str ''application/json''),
                 (''Content-Length'', Num (int (byteLength rt (JSON_stringify rt object))))]),
             (''postData'', Str (JSON_stringify rt object))])) sent))"
  by (simp add: post_def or_empty_def Let_def)

lemma or_default_twice: "or_default (or_default present d) d' = or_default present d"
  by (simp add: or_default_def split: option.split)

lemma map_of_after_get:
  "map_of (fst (snd (get rt net path (Some opts) sent))) ''hostname''
     = or_default (map_of opts ''hostname'') (Str (KUBERNETES_SERVICE_HOST rt))"
  "map_of (fst (snd (get rt net path (Some opts) sent))) ''port''
     = or_default (map_of opts ''port'') (Num 443)"
  "map_of (fst (snd (get rt net path (Some opts) sent))) ''path''
     = or_default (map_of opts ''path'') (Str path)"
  "map_of (fst (snd (get rt net path (Some opts) sent))) ''method''
     = or_default (map_of opts ''method'') (Str ''GET'')"
  "map_of (fst (snd (get rt net path (Some opts) sent))) ''headers''
     = with_authorization rt (map_of opts ''headers'') []"
  by (simp_all add: get_after map_of_after_request_keys map_of_after_request_headers
      map_of_defaults or_default_def split: option.split)

lemma map_of_after_get_rest:
  "k \<notin> {''hostname'', ''port'', ''path'', ''method'', ''headers''} \<Longrightarrow>
     map_of (fst (snd (get rt net path (Some opts) sent))) k = map_of opts k"
  by (simp add: get_after map_of_after_request_rest map_of_defaults split: option.split)

lemma map_of_after_post:
  "map_of (fst (snd (post rt net path object (Some opts) sent))) ''hostname''
     = or_default (map_of opts ''hostname'') (Str (KUBERNETES_SERVICE_HOST rt))"
  "map_of (fst (snd (post rt net path object (Some opts) sent))) ''port''
     = or_default (map_of opts ''port'') (Num 443)"
  "map_of (fst (snd (post rt net path object (Some opts) sent))) ''path''
     = or_default (map_of opts ''path'') (Str path)"
  "map_of (fst (snd (post rt net path object (Some opts) sent))) ''method''
     = or_default (map_of opts ''method'') (Str ''POST'')"
  "map_of (fst (snd (post rt net path object (Some opts) sent))) ''postData''
     = or_default (map_of opts ''postData'') (Str (JSON_stringify rt object))"
  by (simp_all add: post_after map_of_after_request_keys map_of_after_request_rest
      map_of_defaults or_default_def split: option.split)

lemma map_of_after_post_headers:
  "map_of (fst (snd (post rt net path object (Some opts) sent))) ''headers''
     = with_authorization rt (map_of opts ''headers'')
         [(''Content-Type'', Str ''application/json''),
          (''Content-Length'', Num (int (byteLength rt (JSON_stringify rt object))))]"
  by (simp add: post_after map_of_after_request_headers map_of_defaults with_authorization_def
      split: option.split jsval.split)

lemma map_of_after_post_rest:
  "k \<notin> {''hostname'', ''port'', ''path'', ''method'', ''headers'', ''postData''} \<Longrightarrow>
     map_of (fst (snd (post rt net path object (Some opts) sent))) k = map_of opts k"
  by (simp add: post_after map_of_after_request_rest map_of_defaults split: option.split)

lemma get_unchanged_iff:
  "fst (snd (get rt net path (Some opts) sent)) = opts \<longleftrightarrow> all_present opts"
proof -
  have "all_present opts \<Longrightarrow> ''method'' \<in> fst ` set opts" by (simp add: all_present_def)
  then show ?thesis by (auto simp: get_after wrapped_unchanged_iff)
qed

lemma post_unchanged_iff:
  "fst (snd (post rt net path object (Some opts) sent)) = opts
     \<longleftrightarrow> all_present opts \<and> ''postData'' \<in> fst ` set opts"
proof -
  have "all_present opts \<Longrightarrow> ''method'' \<in> fst ` set opts \<and> ''headers'' \<in> fst ` set opts"
    by (simp add: all_present_def)
  then show ?thesis by (auto simp: post_after wrapped_unchanged_iff)
qed

text \<open>
  C10, as stated: for every options object of the caller, the object is different after
  \<^verbatim>\<open>request\<close>, \<^verbatim>\<open>get\<close> or \<^verbatim>\<open>post\<close>. An object that already has \<^verbatim>\<open>hostname\<close>,
  \<^verbatim>\<open>port\<close>, \<^verbatim>\<open>path\<close>, \<^verbatim>\<open>method\<close> and \<^verbatim>\<open>headers\<close> with an Authorization header
  is the same after \<^verbatim>\<open>request\<close> and after \<^verbatim>\<open>get\<close>: nothing is missing, so nothing is
  written.
\<close>

theorem complete_options_left_alone:
  "fst (snd (request sample_runtime (scripted []) ''/api''
      (Some [(''hostname'', Str ''kube.example''), (''port'', Num 6443), (''path'', Str ''/api''),
             (''method'', Str ''GET''),
             (''headers'', Obj [(''Authorization'', Str ''Bearer abc'')])]) []))
    = [(''hostname'', Str ''kube.example''), (''port'', Num 6443), (''path'', Str ''/api''),
       (''method'', Str ''GET''),
       (''headers'', Obj [(''Authorization'', Str ''Bearer abc'')])]
   \<and> fst (snd (get sample_runtime (scripted []) ''/api''
      (Some [(''hostname'', Str ''kube.example''), (''port'', Num 6443), (''path'', Str ''/api''),
             (''method'', Str ''GET''),
             (''headers'', Obj [(''Authorization'', Str ''Bearer abc'')])]) []))
    = [(''hostname'', Str ''kube.example''), (''port'', Num 6443), (''path'', Str ''/api''),
       (''method'', Str ''GET''),
       (''headers'', Obj [(''Authorization'', Str ''Bearer abc'')])]"
  by (simp add: get_def request_def or_empty_def Let_def defaults.simps)

text \<open>
  C10, amended. \<^verbatim>\<open>request\<close>, \<^verbatim>\<open>get\<close> and \<^verbatim>\<open>post\<close> work on the caller's options
  object in place. After the call, each of \<^verbatim>\<open>hostname\<close>, \<^verbatim>\<open>port\<close>, \<^verbatim>\<open>path\<close>,
  \<^verbatim>\<open>method\<close> (and \<^verbatim>\<open>postData\<close> for \<^verbatim>\<open>post\<close>) has the caller's value if the key was
  there and the default otherwise; \<^verbatim>\<open>headers\<close> is the caller's headers object (or a new
  one, for \<^verbatim>\<open>post\<close> with Content-Type and Content-Length) with the Authorization header
  added when it had none; every other key is as before. The object differs from what it
  was exactly when one of these keys or the Authorization header was missing.
\<close>

theorem options_filled_in_place:
  "(let after = fst (snd (request rt net path (Some opts) sent))
    in map_of after ''hostname''
         = or_default (map_of opts ''hostname'') (Str (KUBERNETES_SERVICE_HOST rt))
     \<and> map_of after ''port'' = or_default (map_of opts ''port'') (Num 443)
     \<and> map_of after ''path'' = or_default (map_of opts ''path'') (Str path)
     \<and> map_of after ''method'' = or_default (map_of opts ''method'') (Str ''GET'')
     \<and> map_of after ''headers'' = with_authorization rt (map_of opts ''headers'') []
     \<and> (k \<notin> {''hostname'', ''port'', ''path'', ''method'', ''headers''}
          \<longrightarrow> map_of after k = map_of opts k)
     \<and> (after \<noteq> opts \<longleftrightarrow> \<not> all_present opts))
   \<and> (let after = fst (snd (get rt net path (Some opts) sent))
    in map_of after ''hostname''
         = or_default (map_of opts ''hostname'') (Str (KUBERNETES_SERVICE_HOST rt))
     \<and> map_of after ''port'' = or_default (map_of opts ''port'') (Num 443)
     \<and> map_of after ''path'' = or_default (map_of opts ''path'') (Str path)
     \<and> map_of after ''method'' = or_default (map_of opts ''method'') (Str ''GET'')
     \<and> map_of after ''headers'' = with_authorization rt (map_of opts ''headers'') []
     \<and> (k \<notin> {''hostname'', ''port'', ''path'', ''method'', ''headers''}
          \<longrightarrow> map_of after k = map_of opts k)
     \<and> (after \<noteq> opts \<longleftrightarrow> \<not> all_present opts))
   \<and> (let after = fst (snd (post rt net path object (Some opts) sent))
    in map_of after ''hostname''
         = or_default (map_of opts ''hostname'') (Str (KUBERNETES_SERVICE_HOST rt))
     \<and> map_of after ''port'' = or_default (map_of opts ''port'') (Num 443)
     \<and> map_of after ''path'' = or_default (map_of opts ''path'') (Str path)
     \<and> map_of after ''method'' = or_default (map_of opts ''method'') (Str ''POST'')
     \<and> map_of after ''postData''
         = or_default (map_of opts ''postData'') (Str (JSON_stringify rt object))
     \<and> map_of after ''headers''
         = with_authorization rt (map_of opts ''headers'')
             [(''Content-Type'', Str ''application/json''),
              (''Content-Length'', Num (int (byteLength rt (JSON_stringify rt object))))]
     \<and> (k \<notin> {''hostname'', ''port'', ''path'', ''method'', ''headers'', ''postData''}
          \<longrightarrow> map_of after k = map_of opts k)
     \<and> (after \<noteq> opts \<longleftrightarrow> \<not> (all_present opts \<and> ''postData'' \<in> fst ` set opts)))"
  unfolding Let_def
  by (intro conjI impI)
    (simp_all only: map_of_after_request_keys map_of_after_request_headers
      map_of_after_request_rest request_unchanged_iff
      map_of_after_get map_of_after_get_rest get_unchanged_iff
      map_of_after_post map_of_after_post_headers map_of_after_post_rest post_unchanged_iff
      simp_thms)

theorem options_filled_in_place_witness:
  "''timeout'' \<notin> {''hostname'', ''port'', ''path'', ''method'', ''headers''}
   \<and> \<not> all_present [(''timeout'', Num 5000)]
   \<and> map_of (fst (snd (request sample_runtime (scripted []) ''/api''
        (Some [(''timeout'', Num 5000)]) []))) ''timeout'' = Some (Num 5000)
   \<and> map_of (fst (snd (request sample_runtime (scripted []) ''/api''
        (Some [(''timeout'', Num 5000)]) []))) ''port'' = Some (Num 443)
   \<and> map_of (fst (snd (request sample_runtime (scripted []) ''/api''
        (Some [(''timeout'', Num 5000)]) []))) ''headers''
       = Some (Obj [(''Authorization'', Str ''Bearer t0k3n'')])
   \<and> fst (snd (request sample_runtime (scripted []) ''/api''
        (Some [(''timeout'', Num 5000)]) [])) \<noteq> [(''timeout'', Num 5000)]
   \<and> map_of (fst (snd (get sample_runtime (scripted []) ''/api''
        (Some [(''timeout'', Num 5000)]) []))) ''method'' = Some (Str ''GET'')
   \<and> fst (snd (get sample_runtime (scripted []) ''/api''
        (Some [(''timeout'', Num 5000)]) [])) \<noteq> [(''timeout'', Num 5000)]
   \<and> map_of (fst (snd (post sample_runtime (scripted []) ''/api'' service_a
        (Some [(''timeout'', Num 5000)]) []))) ''method'' = Some (Str ''POST'')
   \<and> map_of (fst (snd (post sample_runtime (scripted []) ''/api'' service_a
        (Some [(''timeout'', Num 5000)]) []))) ''postData''
       = Some (Str (JSON_stringify sample_runtime service_a))
   \<and> fst (snd (post sample_runtime (scripted []) ''/api'' service_a
        (Some [(''timeout'', Num 5000)]) [])) \<noteq> [(''timeout'', Num 5000)]"
proof -
  have h1: "''timeout'' \<notin> {''hostname'', ''port'', ''path'', ''method'', ''headers''}" by simp
  have h2: "\<not> all_present [(''timeout'', Num 5000)]" by (simp add: all_present_def)
  have t: "token sample_runtime = ''t0k3n''" by (simp add: sample_runtime_def)
  show ?thesis
    using h1 h2
      options_filled_in_place [where rt = sample_runtime and net = "scripted []"
        and path = "''/api''" and opts = "[(''timeout'', Num 5000)]" and sent = "[]"
        and k = "''timeout''" and object = service_a]
    by (simp add: Let_def or_default_def with_authorization_def t)
qed

end
